theory Spec2Isabelle
  imports Main
begin

section \<open>Values shared by the handlers of package idp\<close>

text \<open>
  Go strings and byte slices are both sequences of bytes; they are modelled as
  \<^typ>\<open>string\<close> (a list of 8-bit characters).

  A Go \<open>error\<close> value is the \<open>CorruptInputError\<close> of package \<open>encoding/base64\<close>,
  that of package \<open>compress/flate\<close> (the byte offset they carry is not modelled),
  \<open>io.ErrUnexpectedEOF\<close>, or an error identified by its message, as produced by the
  collaborators.
\<close>

datatype error =
    base64_CorruptInputError
  | flate_CorruptInputError
  | io_ErrUnexpectedEOF
  | ErrorString string

datatype panic = Panic string

text \<open>
  A call \<open>saml.Logf(format, err)\<close> made by a handler is recorded as the pair of its
  format string and its argument.
\<close>

type_synonym log_entry = "string \<times> error"

subsection \<open>The HTTP request and response writer\<close>

text \<open>
  \<open>url.Values\<close> maps a key to the list of its values; \<open>Get\<close> returns the first
  value of the key, or the empty string when there is none.
\<close>

type_synonym Values = "string \<rightharpoonup> string list"

definition Values_Get :: "Values \<Rightarrow> string \<Rightarrow> string" where
  "Values_Get v key =
     (case v key of
        None \<Rightarrow> ''''
      | Some [] \<Rightarrow> ''''
      | Some (x # _) \<Rightarrow> x)"

text \<open>
  Of the \<open>*http.Request\<close> the handlers read only \<open>r.URL.Query()\<close>, the parsed
  query parameters.
\<close>

record Request =
  URL_Query :: Values

text \<open>
  The \<open>http.ResponseWriter\<close> is modelled as a response recorder: the header map,
  the status code (\<open>None\<close> until a status is written) and the body written so far.
  \<open>Header().Set\<close> replaces the values of a key; the first \<open>Write\<close> writes status
  200 when no status has been written before.
\<close>

record ResponseWriter =
  Header :: "string \<rightharpoonup> string list"
  Code :: "nat option"
  Body :: string

definition Header_Set :: "ResponseWriter \<Rightarrow> string \<Rightarrow> string \<Rightarrow> ResponseWriter" where
  "Header_Set w key val = w\<lparr>Header := (Header w)(key \<mapsto> [val])\<rparr>"

definition Write :: "ResponseWriter \<Rightarrow> string \<Rightarrow> ResponseWriter" where
  "Write w b =
     w\<lparr>Code := (case Code w of None \<Rightarrow> Some 200 | Some c \<Rightarrow> Some c),
       Body := Body w @ b\<rparr>"

section \<open>The middleware\<close>

text \<open>
  \<open>Middleware\<close> holds a pointer to the identity provider; a pointer is an
  \<^typ>\<open>'idp option\<close>, \<open>None\<close> being \<open>nil\<close>.
\<close>

record 'idp Middleware =
  idp :: "'idp option"

definition NewMiddleware :: "'idp option \<Rightarrow> panic + 'idp Middleware" where
  "NewMiddleware p =
     (if p = None then Inl (Panic ''IdP cannot be a nil value.'')
      else Inr \<lparr>idp = p\<rparr>)"

section \<open>Package encoding/base64: the standard encoding\<close>

text \<open>
  \<open>base64.StdEncoding\<close> uses the alphabet below and the padding character \<open>=\<close>.
  The shifts and masks of the library are written as multiplication, division and
  remainder on natural numbers; no intermediate value exceeds 24 bits.
\<close>

definition encodeStd :: string where
  "encodeStd = ''ABCDEFGHIJKLMNOPQRSTUVWXYZabcdefghijklmnopqrstuvwxyz0123456789+/''"

definition padChar :: char where
  "padChar = CHR ''=''"

definition encode6 :: "nat \<Rightarrow> char" where
  "encode6 n = encodeStd ! (n mod 64)"

fun index_of :: "char \<Rightarrow> string \<Rightarrow> nat option" where
  "index_of c [] = None"
| "index_of c (x # xs) =
     (if x = c then Some 0
      else (case index_of c xs of None \<Rightarrow> None | Some i \<Rightarrow> Some (Suc i)))"

text \<open>
  The decode map sends a character of the alphabet to its position and every other
  byte to \<open>0xFF\<close>.
\<close>

definition decodeMap :: "char \<Rightarrow> nat" where
  "decodeMap c = (case index_of c encodeStd of None \<Rightarrow> 255 | Some i \<Rightarrow> i)"

definition byte :: "nat \<Rightarrow> char" where
  "byte n = char_of (n mod 256)"

fun EncodeToString :: "string \<Rightarrow> string" where
  "EncodeToString [] = []"
| "EncodeToString [b0] =
     (let val = of_char b0 * 65536
      in [encode6 (val div 262144), encode6 (val div 4096), padChar, padChar])"
| "EncodeToString [b0, b1] =
     (let val = of_char b0 * 65536 + of_char b1 * 256
      in [encode6 (val div 262144), encode6 (val div 4096), encode6 (val div 64), padChar])"
| "EncodeToString (b0 # b1 # b2 # src) =
     (let val = of_char b0 * 65536 + of_char b1 * 256 + of_char b2
      in [encode6 (val div 262144), encode6 (val div 4096), encode6 (val div 64), encode6 val])
     @ EncodeToString src"

text \<open>
  The decoder ignores carriage returns and line feeds wherever they occur, then reads
  quanta of four characters. Padding is accepted only in the last quantum, as \<open>==\<close>
  after two characters or \<open>=\<close> after three, and nothing may follow it. The encoding is
  not strict: the unused low bits of a padded quantum are not checked.
\<close>

definition stripNewlines :: "string \<Rightarrow> string" where
  "stripNewlines s = filter (\<lambda>c. c \<noteq> CHR 0x0A \<and> c \<noteq> CHR 0x0D) s"

fun decodeQuanta :: "string \<Rightarrow> error + string" where
  "decodeQuanta [] = Inr []"
| "decodeQuanta (c0 # c1 # c2 # c3 # rest) =
     (let d0 = decodeMap c0; d1 = decodeMap c1; d2 = decodeMap c2; d3 = decodeMap c3
      in if d0 = 255 \<or> d1 = 255 then Inl base64_CorruptInputError
         else if d2 = 255 then
           (if c2 = padChar \<and> c3 = padChar \<and> rest = []
            then Inr [byte ((d0 * 262144 + d1 * 4096) div 65536)]
            else Inl base64_CorruptInputError)
         else if d3 = 255 then
           (if c3 = padChar \<and> rest = []
            then (let val = d0 * 262144 + d1 * 4096 + d2 * 64
                  in Inr [byte (val div 65536), byte (val div 256)])
            else Inl base64_CorruptInputError)
         else
           (case decodeQuanta rest of
              Inl err \<Rightarrow> Inl err
            | Inr bs \<Rightarrow>
                (let val = d0 * 262144 + d1 * 4096 + d2 * 64 + d3
                 in Inr (byte (val div 65536) # byte (val div 256) # byte val # bs))))"
| "decodeQuanta _ = Inl base64_CorruptInputError"

definition DecodeString :: "string \<Rightarrow> error + string" where
  "DecodeString s = decodeQuanta (stripNewlines s)"


section \<open>Package compress/flate: the reader\<close>

text \<open>
  \<open>flate_ReadAll data\<close> stands for
  \<open>ioutil.ReadAll(flate.NewReader(bytes.NewBuffer(data)))\<close>: the bytes the reader
  delivered and the error it ended with, \<open>None\<close> when the final block was read to its
  end.

  The reader takes its input bit by bit, the low bit of a byte first. Its state is the
  bits left of the byte read last and the bytes not read yet. Running out of input in
  the middle of the stream is \<open>io.ErrUnexpectedEOF\<close>.
\<close>

type_synonym bitReader = "bool list \<times> string"

definition availBits :: "bitReader \<Rightarrow> nat" where
  "availBits r = length (fst r) + 8 * length (snd r)"

fun readBit :: "bitReader \<Rightarrow> (bool \<times> bitReader) option" where
  "readBit (b # bs, rest) = Some (b, (bs, rest))"
| "readBit ([], c # rest) =
     Some (digit0 c, ([digit1 c, digit2 c, digit3 c, digit4 c, digit5 c, digit6 c, digit7 c], rest))"
| "readBit ([], []) = None"

fun readBits :: "nat \<Rightarrow> bitReader \<Rightarrow> (nat \<times> bitReader) option" where
  "readBits 0 r = Some (0, r)"
| "readBits (Suc n) r =
     (case readBit r of
        None \<Rightarrow> None
      | Some (b, r1) \<Rightarrow>
          (case readBits n r1 of
             None \<Rightarrow> None
           | Some (v, r2) \<Rightarrow> Some ((if b then 1 else 0) + 2 * v, r2)))"

text \<open>
  A Huffman decoder is built from the code lengths of the symbols. It holds the length
  of its shortest code and, for every length from 1 to the longest, the symbols with a
  code of that length in increasing order; this is the order of the canonical codes.
  \<open>init\<close> accepts the empty code, a complete code, and the code with one symbol of
  length 1; it rejects every other set of lengths.
\<close>

record huffmanDecoder =
  hmin :: nat
  codes :: "nat list list"

definition minLength :: "nat list \<Rightarrow> nat" where
  "minLength lengths = foldl (\<lambda>m n. if n = 0 then m else if m = 0 \<or> n < m then n else m) 0 lengths"

definition maxLength :: "nat list \<Rightarrow> nat" where
  "maxLength lengths = foldl max 0 lengths"

definition huffmanDecoder_init :: "nat list \<Rightarrow> huffmanDecoder option" where
  "huffmanDecoder_init lengths =
     (let mx = maxLength lengths;
          byLength = map (\<lambda>l. filter (\<lambda>s. lengths ! s = l) [0..<length lengths]) [1..<Suc mx];
          code = foldl (\<lambda>c syms. 2 * c + length syms) 0 byLength
      in if mx = 0 then Some \<lparr>hmin = 0, codes = []\<rparr>
         else if code \<noteq> 2 ^ mx \<and> \<not> (code = 1 \<and> mx = 1) then None
         else Some \<lparr>hmin = minLength lengths, codes = byLength\<rparr>)"

text \<open>
  \<open>huffSym\<close> reads one symbol. It needs as many bits of input as the shortest code has
  before it decodes; then it follows the canonical code bit by bit. A bit sequence
  that no code starts with is corrupt input.
\<close>

fun decodeSym :: "nat list list \<Rightarrow> nat \<Rightarrow> nat \<Rightarrow> bitReader \<Rightarrow> error + nat \<times> bitReader" where
  "decodeSym [] code first r = Inl flate_CorruptInputError"
| "decodeSym (syms # longer) code first r =
     (case readBit r of
        None \<Rightarrow> Inl io_ErrUnexpectedEOF
      | Some (b, r1) \<Rightarrow>
          (let code1 = code + (if b then 1 else 0)
           in if code1 < first + length syms then Inr (syms ! (code1 - first), r1)
              else decodeSym longer (2 * code1) (2 * (first + length syms)) r1))"

definition huffSym :: "huffmanDecoder \<Rightarrow> bitReader \<Rightarrow> error + nat \<times> bitReader" where
  "huffSym h r =
     (if availBits r < hmin h then Inl io_ErrUnexpectedEOF
      else decodeSym (codes h) 0 0 r)"

text \<open>The input left decreases with every bit read.\<close>

lemma readBit_avail: "readBit r = Some (b, r1) \<Longrightarrow> Suc (availBits r1) = availBits r"
  by (cases r rule: readBit.cases) (auto simp: availBits_def)

lemma readBits_avail: "readBits n r = Some (v, r1) \<Longrightarrow> availBits r1 + n = availBits r"
proof (induction n arbitrary: r v r1)
  case 0
  then show ?case by simp
next
  case (Suc n)
  then show ?case
    by (fastforce split: option.splits dest: readBit_avail)
qed

lemma decodeSym_avail:
  "decodeSym cs code first r = Inr (v, r1) \<Longrightarrow> availBits r1 < availBits r"
proof (induction cs arbitrary: code first r)
  case Nil
  then show ?case by simp
next
  case (Cons syms longer)
  then show ?case
    by (fastforce simp: Let_def split: option.splits if_splits dest: readBit_avail)
qed

lemma huffSym_avail: "huffSym h r = Inr (v, r1) \<Longrightarrow> availBits r1 < availBits r"
  unfolding huffSym_def by (auto split: if_splits dest: decodeSym_avail)


text \<open>
  The header of a block with dynamic codes: the numbers of literal/length codes, of
  distance codes and of code length codes, the lengths of the code length codes in the
  order \<open>codeOrder\<close>, then the code lengths of the two alphabets, run-length encoded.
\<close>

definition codeOrder :: "nat list" where
  "codeOrder = [16, 17, 18, 0, 8, 7, 9, 6, 10, 5, 11, 4, 12, 3, 13, 2, 14, 1, 15]"

fun readCodeLengths :: "nat \<Rightarrow> bitReader \<Rightarrow> (nat list \<times> bitReader) option" where
  "readCodeLengths 0 r = Some ([], r)"
| "readCodeLengths (Suc n) r =
     (case readBits 3 r of
        None \<Rightarrow> None
      | Some (v, r1) \<Rightarrow>
          (case readCodeLengths n r1 of
             None \<Rightarrow> None
           | Some (vs, r2) \<Rightarrow> Some (v # vs, r2)))"

function readLengths ::
  "huffmanDecoder \<Rightarrow> nat \<Rightarrow> nat list \<Rightarrow> bitReader \<Rightarrow> error + nat list \<times> bitReader" where
  "readLengths h n bits r =
     (if n \<le> length bits then Inr (bits, r)
      else
        (case huffSym h r of
           Inl err \<Rightarrow> Inl err
         | Inr (x, r1) \<Rightarrow>
             (if x < 16 then readLengths h n (bits @ [x]) r1
              else if x = 16 \<and> bits = [] then Inl flate_CorruptInputError
              else if 18 < x then Inl (ErrorString ''flate: internal error: unexpected length code'')
              else
                (let rep = (if x = 18 then 11 else 3);
                     nb = (if x = 16 then 2 else if x = 17 then 3 else 7);
                     b = (if x = 16 then last bits else 0)
                 in case readBits nb r1 of
                      None \<Rightarrow> Inl io_ErrUnexpectedEOF
                    | Some (extra, r2) \<Rightarrow>
                        (if n < length bits + (rep + extra) then Inl flate_CorruptInputError
                         else readLengths h n (bits @ replicate (rep + extra) b) r2)))))"
  by pat_completeness auto
termination
  by (relation "measure (\<lambda>(h, n, bits, r). n - length bits)") auto

definition readHuffman ::
  "bitReader \<Rightarrow> error + huffmanDecoder \<times> huffmanDecoder \<times> bitReader" where
  "readHuffman r =
     (case readBits 14 r of
        None \<Rightarrow> Inl io_ErrUnexpectedEOF
      | Some (v, r1) \<Rightarrow>
          (let nlit = v mod 32 + 257;
               ndist = v div 32 mod 32 + 1;
               nclen = v div 1024 mod 16 + 4
           in if 286 < nlit then Inl flate_CorruptInputError
              else if 30 < ndist then Inl flate_CorruptInputError
              else
                (case readCodeLengths nclen r1 of
                   None \<Rightarrow> Inl io_ErrUnexpectedEOF
                 | Some (vs, r2) \<Rightarrow>
                     (let codebits = fold (\<lambda>(k, v) cb. cb[k := v]) (zip codeOrder vs)
                                       (replicate 19 0)
                      in case huffmanDecoder_init codebits of
                           None \<Rightarrow> Inl flate_CorruptInputError
                         | Some h \<Rightarrow>
                             (case readLengths h (nlit + ndist) [] r2 of
                                Inl err \<Rightarrow> Inl err
                              | Inr (bits, r3) \<Rightarrow>
                                  (case huffmanDecoder_init (take nlit bits) of
                                     None \<Rightarrow> Inl flate_CorruptInputError
                                   | Some h1 \<Rightarrow>
                                       (case huffmanDecoder_init (take ndist (drop nlit bits)) of
                                          None \<Rightarrow> Inl flate_CorruptInputError
                                        | Some h2 \<Rightarrow>
                                            Inr (if hmin h1 < bits ! 256
                                                 then h1\<lparr>hmin := bits ! 256\<rparr> else h1,
                                                 h2, r3))))))))"

text \<open>The literal/length code of a block with fixed codes.\<close>

definition fixedHuffmanDecoder :: huffmanDecoder where
  "fixedHuffmanDecoder =
     \<lparr>hmin = 7,
      codes = [[], [], [], [], [], [], [256..<280], [0..<144] @ [280..<288], [144..<256]]\<rparr>"

text \<open>
  The body of a compressed block: literals, the end-of-block symbol 256, and pairs of
  length and distance that copy bytes written before. A fixed block (\<open>hdist = None\<close>)
  reads a distance code as five bits, high bit first.
\<close>

definition lengthCode :: "nat \<Rightarrow> (nat \<times> nat) option" where
  "lengthCode v =
     (if v < 265 then Some (v - (257 - 3), 0)
      else if v < 269 then Some (v * 2 - (265 * 2 - 11), 1)
      else if v < 273 then Some (v * 4 - (269 * 4 - 19), 2)
      else if v < 277 then Some (v * 8 - (273 * 8 - 35), 3)
      else if v < 281 then Some (v * 16 - (277 * 16 - 67), 4)
      else if v < 285 then Some (v * 32 - (281 * 32 - 131), 5)
      else if v < 286 then Some (258, 0)
      else None)"

definition reverse5 :: "nat \<Rightarrow> nat" where
  "reverse5 v = 16 * (v mod 2) + 8 * (v div 2 mod 2) + 4 * (v div 4 mod 2)
                + 2 * (v div 8 mod 2) + v div 16 mod 2"

definition distSym :: "huffmanDecoder option \<Rightarrow> bitReader \<Rightarrow> error + nat \<times> bitReader" where
  "distSym hdist r =
     (case hdist of
        None \<Rightarrow>
          (case readBits 5 r of
             None \<Rightarrow> Inl io_ErrUnexpectedEOF
           | Some (v, r1) \<Rightarrow> Inr (reverse5 v, r1))
      | Some h \<Rightarrow> huffSym h r)"

definition distance :: "nat \<Rightarrow> bitReader \<Rightarrow> error + nat \<times> bitReader" where
  "distance dist r =
     (if dist < 4 then Inr (dist + 1, r)
      else if dist < 30 then
        (let nb = (dist - 2) div 2;
             extra = (dist mod 2) * 2 ^ nb
         in case readBits nb r of
              None \<Rightarrow> Inl io_ErrUnexpectedEOF
            | Some (v, r1) \<Rightarrow> Inr (2 ^ (nb + 1) + 1 + (extra + v), r1))
      else Inl flate_CorruptInputError)"

fun writeCopy :: "nat \<Rightarrow> nat \<Rightarrow> string \<Rightarrow> string" where
  "writeCopy 0 dist out = out"
| "writeCopy (Suc n) dist out = writeCopy n dist (out @ [out ! (length out - dist)])"

lemma distSym_avail: "distSym hdist r = Inr (v, r1) \<Longrightarrow> availBits r1 \<le> availBits r"
  unfolding distSym_def
  by (auto split: option.splits dest: readBits_avail huffSym_avail)

lemma distance_avail: "distance d r = Inr (v, r1) \<Longrightarrow> availBits r1 \<le> availBits r"
  unfolding distance_def
  by (auto simp: Let_def split: if_splits option.splits dest: readBits_avail)

function huffmanBlock ::
  "huffmanDecoder \<Rightarrow> huffmanDecoder option \<Rightarrow> bitReader \<Rightarrow> string
     \<Rightarrow> string \<times> error + string \<times> bitReader" where
  "huffmanBlock hl hdist r out =
     (case huffSym hl r of
        Inl err \<Rightarrow> Inl (out, err)
      | Inr (v, r1) \<Rightarrow>
          (if v < 256 then huffmanBlock hl hdist r1 (out @ [byte v])
           else if v = 256 then Inr (out, r1)
           else
             (case lengthCode v of
                None \<Rightarrow> Inl (out, flate_CorruptInputError)
              | Some (len, n) \<Rightarrow>
                  (case readBits n r1 of
                     None \<Rightarrow> Inl (out, io_ErrUnexpectedEOF)
                   | Some (extra, r2) \<Rightarrow>
                       (case distSym hdist r2 of
                          Inl err \<Rightarrow> Inl (out, err)
                        | Inr (d, r3) \<Rightarrow>
                            (case distance d r3 of
                               Inl err \<Rightarrow> Inl (out, err)
                             | Inr (dist, r4) \<Rightarrow>
                                 (if length out < dist then Inl (out, flate_CorruptInputError)
                                  else huffmanBlock hl hdist r4
                                         (writeCopy (len + extra) dist out))))))))"
  by pat_completeness auto
termination
proof (relation "measure (\<lambda>(hl, hdist, r, out). availBits r)", goal_cases)
  case 1
  show ?case by simp
next
  case (2 hl hdist r out x v r1)
  then show ?case by (auto dest: huffSym_avail)
next
  case (3 hl hdist r out x v r1 y len n z extra r2 u d r3 t dist r4)
  then have "availBits r1 < availBits r" "availBits r2 \<le> availBits r1"
    "availBits r3 \<le> availBits r2" "availBits r4 \<le> availBits r3"
    using huffSym_avail[of hl r v r1] readBits_avail[of n r1 extra r2]
          distSym_avail[of hdist r2 d r3] distance_avail[of d r3 dist r4]
    by auto
  then show ?case by simp
qed

text \<open>
  A stored block: the rest of the current byte is skipped; the length and its
  complement follow, then the bytes themselves.
\<close>

definition dataBlock :: "bitReader \<Rightarrow> string \<Rightarrow> string \<times> error + string \<times> bitReader" where
  "dataBlock r out =
     (case snd r of
        b0 # b1 # b2 # b3 # rest \<Rightarrow>
          (let n = of_char b0 + 256 * of_char b1;
               nn = of_char b2 + 256 * of_char b3
           in if nn \<noteq> 65535 - n then Inl (out, flate_CorruptInputError)
              else if length rest < n then Inl (out @ rest, io_ErrUnexpectedEOF)
              else Inr (out @ take n rest, ([], drop n rest)))
      | _ \<Rightarrow> Inl (out, io_ErrUnexpectedEOF))"


lemma readCodeLengths_avail:
  "readCodeLengths n r = Some (vs, r1) \<Longrightarrow> availBits r1 \<le> availBits r"
proof (induction n arbitrary: r vs r1)
  case 0
  then show ?case by simp
next
  case (Suc n)
  then show ?case
    by (fastforce split: option.splits dest: readBits_avail)
qed

lemma readLengths_avail:
  "readLengths h n bits r = Inr (bits1, r1) \<Longrightarrow> availBits r1 \<le> availBits r"
proof (induction h n bits r rule: readLengths.induct)
  case (1 h n bits r)
  show ?case
  proof (cases "n \<le> length bits")
    case True
    with "1.prems" show ?thesis by simp
  next
    case False
    from False "1.prems" obtain x r2 where sym: "huffSym h r = Inr (x, r2)"
      by (auto split: sum.splits)
    have lt: "availBits r2 < availBits r" using huffSym_avail[OF sym] .
    show ?thesis
    proof (cases "x < 16")
      case True
      with False sym "1.prems" have "readLengths h n (bits @ [x]) r2 = Inr (bits1, r1)"
        by simp
      with "1.IH"(1)[OF False sym refl True] lt show ?thesis by simp
    next
      case x16: False
      define rep :: nat where "rep = (if x = 18 then 11 else 3)"
      define nb :: nat where "nb = (if x = 16 then 2 else if x = 17 then 3 else 7)"
      define b where "b = (if x = 16 then last bits else 0)"
      from False sym x16 "1.prems" have guards: "\<not> (x = 16 \<and> bits = [])" "\<not> 18 < x"
        by (auto split: if_splits)
      from False sym x16 guards "1.prems"[unfolded readLengths.simps[of h n bits r]]
      obtain extra r3
        where rd: "readBits nb r2 = Some (extra, r3)"
          and ok: "\<not> n < length bits + (rep + extra)"
          and rec: "readLengths h n (bits @ replicate (rep + extra) b) r3 = Inr (bits1, r1)"
        by (auto simp: Let_def rep_def nb_def b_def simp del: readLengths.simps
              split: option.splits if_splits)
      have "availBits r1 \<le> availBits r3"
        using "1.IH"(2)[OF False sym refl x16 guards rep_def nb_def b_def rd refl ok] rec
        by simp
      with readBits_avail[OF rd] lt show ?thesis by simp
    qed
  qed
qed

lemma readHuffman_avail:
  assumes "readHuffman r = Inr (h1, h2, r1)"
  shows "availBits r1 \<le> availBits r"
proof -
  from assms obtain v ra where a: "readBits 14 r = Some (v, ra)"
    unfolding readHuffman_def by (cases "readBits 14 r") auto
  define nclen where "nclen = v div 1024 mod 16 + 4"
  define n where "n = v mod 32 + 257 + (v div 32 mod 32 + 1)"
  from assms a obtain vs rb where b: "readCodeLengths nclen ra = Some (vs, rb)"
    unfolding readHuffman_def nclen_def
    by (cases "readCodeLengths (v div 1024 mod 16 + 4) ra") (auto simp: Let_def split: if_splits)
  define codebits where
    "codebits = fold (\<lambda>(k, v) cb. cb[k := v]) (zip codeOrder vs) (replicate 19 (0::nat))"
  from assms a b obtain h where c: "huffmanDecoder_init codebits = Some h"
    unfolding readHuffman_def nclen_def codebits_def
    by (cases "huffmanDecoder_init
                 (fold (\<lambda>(k, v) cb. cb[k := v]) (zip codeOrder vs) (replicate 19 (0::nat)))")
       (auto simp: Let_def split: if_splits)
  from assms a b c obtain bits rc where d: "readLengths h n [] rb = Inr (bits, rc)"
    unfolding readHuffman_def nclen_def codebits_def n_def
    by (cases "readLengths h (v mod 32 + 257 + (v div 32 mod 32 + 1)) [] rb")
       (auto simp: Let_def split: if_splits)
  from assms a b c d have "r1 = rc"
    unfolding readHuffman_def nclen_def codebits_def n_def
    by (auto simp: Let_def split: if_splits option.splits)
  with readBits_avail[OF a] readCodeLengths_avail[OF b] readLengths_avail[OF d]
  show ?thesis by simp
qed

lemma huffmanBlock_avail:
  "huffmanBlock hl hdist r out = Inr (out1, r1) \<Longrightarrow> availBits r1 \<le> availBits r"
proof (induction hl hdist r out rule: huffmanBlock.induct)
  case (1 hl hdist r out)
  note unfolded = "1.prems"[unfolded huffmanBlock.simps[of hl hdist r out]]
  from unfolded obtain v r2 where sym: "huffSym hl r = Inr (v, r2)"
    by (cases "huffSym hl r") auto
  have lt: "availBits r2 < availBits r" using huffSym_avail[OF sym] .
  show ?case
  proof (cases "v < 256")
    case True
    with sym unfolded have "huffmanBlock hl hdist r2 (out @ [byte v]) = Inr (out1, r1)"
      by (simp del: huffmanBlock.simps)
    with "1.IH"(1)[OF sym refl True] lt show ?thesis by simp
  next
    case nolit: False
    show ?thesis
    proof (cases "v = 256")
      case True
      with sym nolit unfolded lt show ?thesis by (simp del: huffmanBlock.simps)
    next
      case noend: False
      from sym nolit noend unfolded obtain len n extra r3 d r4 dist r5
        where lc: "lengthCode v = Some (len, n)"
          and rb: "readBits n r2 = Some (extra, r3)"
          and ds: "distSym hdist r3 = Inr (d, r4)"
          and di: "distance d r4 = Inr (dist, r5)"
          and ok: "\<not> length out < dist"
          and rec: "huffmanBlock hl hdist r5 (writeCopy (len + extra) dist out) = Inr (out1, r1)"
        by (auto simp del: huffmanBlock.simps split: option.splits sum.splits if_splits)
      have "availBits r1 \<le> availBits r5"
        using "1.IH"(2)[OF sym refl nolit noend lc refl rb refl ds refl di refl ok] rec
        by simp
      with readBits_avail[OF rb] distSym_avail[OF ds] distance_avail[OF di] lt
      show ?thesis by simp
    qed
  qed
qed

lemma dataBlock_avail:
  "dataBlock r out = Inr (out1, r1) \<Longrightarrow> availBits r1 \<le> availBits r"
  unfolding dataBlock_def
  by (auto simp: Let_def availBits_def split: list.splits if_splits)

text \<open>
  Every block starts with three bits: the final flag and the block type. Type 3 is
  reserved. After the final block the reader is at its end, whatever follows.
\<close>

definition decodeBlock ::
  "nat \<Rightarrow> bitReader \<Rightarrow> string \<Rightarrow> string \<times> error + string \<times> bitReader" where
  "decodeBlock typ r out =
     (if typ = 0 then dataBlock r out
      else if typ = 1 then huffmanBlock fixedHuffmanDecoder None r out
      else if typ = 2 then
        (case readHuffman r of
           Inl err \<Rightarrow> Inl (out, err)
         | Inr (h1, h2, r1) \<Rightarrow> huffmanBlock h1 (Some h2) r1 out)
      else Inl (out, flate_CorruptInputError))"

lemma decodeBlock_avail:
  assumes "decodeBlock typ r out = Inr (out1, r1)"
  shows "availBits r1 \<le> availBits r"
proof -
  consider "typ = 0" | "typ = 1" | "typ = 2" | "2 < typ" by linarith
  then show ?thesis
  proof cases
    case 1
    with assms show ?thesis by (simp add: decodeBlock_def dataBlock_avail)
  next
    case 2
    with assms show ?thesis
      by (simp add: decodeBlock_def huffmanBlock_avail del: huffmanBlock.simps)
  next
    case 3
    with assms obtain h1 h2 r2 where rh: "readHuffman r = Inr (h1, h2, r2)"
      and hb: "huffmanBlock h1 (Some h2) r2 out = Inr (out1, r1)"
      by (cases "readHuffman r") (auto simp: decodeBlock_def simp del: huffmanBlock.simps)
    from readHuffman_avail[OF rh] huffmanBlock_avail[OF hb] show ?thesis by simp
  next
    case 4
    with assms show ?thesis by (simp add: decodeBlock_def)
  qed
qed

function nextBlock :: "bitReader \<Rightarrow> string \<Rightarrow> string \<times> error option" where
  "nextBlock r out =
     (case readBits 3 r of
        None \<Rightarrow> (out, Some io_ErrUnexpectedEOF)
      | Some (v, r1) \<Rightarrow>
          (case decodeBlock (v div 2) r1 out of
             Inl (out1, err) \<Rightarrow> (out1, Some err)
           | Inr (out1, r2) \<Rightarrow>
               (if odd v then (out1, None) else nextBlock r2 out1)))"
  by pat_completeness auto
termination
proof (relation "measure (\<lambda>(r, out). availBits r)", goal_cases)
  case 1
  show ?case by simp
next
  case (2 r out x v r1 y out1 r2)
  then show ?case
    using readBits_avail[of 3 r v r1] decodeBlock_avail[of "v div 2" r1 out out1 r2]
    by auto
qed

definition flate_ReadAll :: "string \<Rightarrow> string \<times> error option" where
  "flate_ReadAll data = nextBlock ([], data) []"

section \<open>Package compress/flate: the writer at level NoCompression\<close>




section \<open>Package text/template\<close>

text \<open>
  The model covers the fragment of the template language that a form template needs:
  literal text, an action that prints a field, either as it is (\<open>{{.Field}}\<close>) or
  through the predefined function \<open>html\<close> (\<open>{{html .Field}}\<close>,
  \<open>{{.Field | html}}\<close>), and a conditional \<open>{{if .Field}} ... {{end}}\<close> on a field.
  An action outside the fragment is reported as a parse error.
\<close>

datatype item = ItemText string | ItemAction string

fun lexText :: "string \<Rightarrow> string \<Rightarrow> error + item list"
  and lexAction :: "string \<Rightarrow> string \<Rightarrow> error + item list" where
  "lexText acc [] = Inr (if acc = [] then [] else [ItemText (rev acc)])"
| "lexText acc [c] = lexText (c # acc) []"
| "lexText acc (c # d # cs) =
     (if c = CHR ''{'' \<and> d = CHR ''{''
      then (case lexAction [] cs of
              Inl err \<Rightarrow> Inl err
            | Inr items \<Rightarrow> Inr ((if acc = [] then [] else [ItemText (rev acc)]) @ items))
      else lexText (c # acc) (d # cs))"
| "lexAction acc [] = Inl (ErrorString ''template: unclosed action'')"
| "lexAction acc [c] = lexAction (c # acc) []"
| "lexAction acc (c # d # cs) =
     (if c = CHR ''}'' \<and> d = CHR ''}''
      then (case lexText [] cs of
              Inl err \<Rightarrow> Inl err
            | Inr items \<Rightarrow> Inr (ItemAction (rev acc) # items))
      else lexAction (c # acc) (d # cs))"

text \<open>
  Inside an action, spaces and tabs separate the words, and the pipe character is a
  word of its own.
\<close>

fun fields :: "string \<Rightarrow> string \<Rightarrow> string list" where
  "fields acc [] = (if acc = [] then [] else [rev acc])"
| "fields acc (c # cs) =
     (if c = CHR '' '' \<or> c = CHR 0x09
      then (if acc = [] then [] else [rev acc]) @ fields [] cs
      else if c = CHR ''|''
      then (if acc = [] then [] else [rev acc]) @ [''|''] @ fields [] cs
      else fields (c # acc) cs)"

text \<open>
  A field action holds the name of the field and the functions its value is piped
  through, in the order in which they are applied. \<open>html\<close> is the only function of the
  fragment.
\<close>

datatype action = ActionField string "string list" | ActionIf string | ActionEnd

definition fieldName :: "string \<Rightarrow> string option" where
  "fieldName word =
     (case word of
        [] \<Rightarrow> None
      | c # name \<Rightarrow> (if c = CHR ''.'' \<and> name \<noteq> [] \<and> CHR ''.'' \<notin> set name then Some name else None))"

fun pipeline :: "string list \<Rightarrow> string list option" where
  "pipeline [] = Some []"
| "pipeline [word] = None"
| "pipeline (bar # function # rest) =
     (if bar = ''|'' \<and> function = ''html''
      then (case pipeline rest of None \<Rightarrow> None | Some functions \<Rightarrow> Some (function # functions))
      else None)"

definition parseAction :: "string \<Rightarrow> error + action" where
  "parseAction s =
     (case fields [] s of
        [] \<Rightarrow> Inl (ErrorString ''template: missing value for command'')
      | word # rest \<Rightarrow>
          (if word = ''end'' \<and> rest = [] then Inr ActionEnd
           else if word = ''if'' then
             (case rest of
                [operand] \<Rightarrow>
                  (case fieldName operand of
                     Some name \<Rightarrow> Inr (ActionIf name)
                   | None \<Rightarrow> Inl (ErrorString ''template: unsupported action''))
              | _ \<Rightarrow> Inl (ErrorString ''template: unsupported action''))
           else if word = ''html'' then
             (case rest of
                [operand] \<Rightarrow>
                  (case fieldName operand of
                     Some name \<Rightarrow> Inr (ActionField name [''html''])
                   | None \<Rightarrow> Inl (ErrorString ''template: unsupported action''))
              | _ \<Rightarrow> Inl (ErrorString ''template: unsupported action''))
           else
             (case fieldName word of
                Some name \<Rightarrow>
                  (case pipeline rest of
                     Some functions \<Rightarrow> Inr (ActionField name functions)
                   | None \<Rightarrow> Inl (ErrorString ''template: unsupported action''))
              | None \<Rightarrow> Inl (ErrorString ''template: unsupported action''))))"

datatype Node = TextNode string | ActionNode string "string list" | IfNode string "Node list"

text \<open>
  The parse tree is built with a stack of the conditionals that are still open: each
  frame holds the field tested and the nodes (in reverse) that precede the conditional.
\<close>

fun parseItems :: "(string \<times> Node list) list \<Rightarrow> Node list \<Rightarrow> item list \<Rightarrow> error + Node list" where
  "parseItems [] acc [] = Inr (rev acc)"
| "parseItems (frame # stack) acc [] = Inl (ErrorString ''template: unexpected EOF'')"
| "parseItems stack acc (ItemText t # items) = parseItems stack (TextNode t # acc) items"
| "parseItems stack acc (ItemAction a # items) =
     (case parseAction a of
        Inl err \<Rightarrow> Inl err
      | Inr (ActionField name functions) \<Rightarrow>
          parseItems stack (ActionNode name functions # acc) items
      | Inr (ActionIf name) \<Rightarrow> parseItems ((name, acc) # stack) [] items
      | Inr ActionEnd \<Rightarrow>
          (case stack of
             [] \<Rightarrow> Inl (ErrorString ''template: unexpected {{end}}'')
           | (name, outer) # stack' \<Rightarrow> parseItems stack' (IfNode name (rev acc) # outer) items))"

definition template_Parse :: "string \<Rightarrow> error + Node list" where
  "template_Parse text =
     (case lexText [] text of
        Inl err \<Rightarrow> Inl err
      | Inr items \<Rightarrow> parseItems [] [] items)"

text \<open>
  The value the form template is executed on. The struct literal in \<open>ServeSSO\<close>
  gives its three fields, all strings.
\<close>

record redirectForm =
  FormAction :: string
  RelayState :: string
  SAMLResponse :: string

definition evalField :: "redirectForm \<Rightarrow> string \<Rightarrow> string option" where
  "evalField dot name =
     (if name = ''FormAction'' then Some (FormAction dot)
      else if name = ''RelayState'' then Some (RelayState dot)
      else if name = ''SAMLResponse'' then Some (SAMLResponse dot)
      else None)"

text \<open>
  The function \<open>html\<close> is \<open>HTMLEscapeString\<close>: it replaces the double quote, the
  apostrophe, the ampersand, the two angle brackets and the NUL byte, and leaves every
  other byte as it is.
\<close>

definition htmlEscapeChar :: "char \<Rightarrow> string" where
  "htmlEscapeChar c =
     (if c = CHR 0x22 then ''&#34;''
      else if c = CHR 0x27 then ''&#39;''
      else if c = CHR ''&'' then ''&amp;''
      else if c = CHR ''<'' then ''&lt;''
      else if c = CHR ''>'' then ''&gt;''
      else if c = CHR 0x00 then [CHR 0xEF, CHR 0xBF, CHR 0xBD]
      else [c])"

definition HTMLEscapeString :: "string \<Rightarrow> string" where
  "HTMLEscapeString s = concat (map htmlEscapeChar s)"

fun applyFunctions :: "string list \<Rightarrow> string \<Rightarrow> error + string" where
  "applyFunctions [] v = Inr v"
| "applyFunctions (function # functions) v =
     (if function = ''html'' then applyFunctions functions (HTMLEscapeString v)
      else Inl (ErrorString (''template: function not defined: '' @ function)))"

text \<open>
  Execution writes literal text as it is. A field action prints the value of the
  field, after the functions of its pipeline, with \<open>fmt.Fprint\<close>, which for a string
  is the string itself: package \<open>text/template\<close> escapes nothing that the template
  does not pipe through \<open>html\<close>. A conditional on a string field runs its body when
  the string is not empty. The first error stops the execution.
\<close>

fun walk :: "redirectForm \<Rightarrow> Node \<Rightarrow> error + string"
  and walkList :: "redirectForm \<Rightarrow> Node list \<Rightarrow> error + string" where
  "walk dot (TextNode t) = Inr t"
| "walk dot (ActionNode name functions) =
     (case evalField dot name of
        None \<Rightarrow> Inl (ErrorString (''template: can not evaluate field '' @ name))
      | Some v \<Rightarrow> applyFunctions functions v)"
| "walk dot (IfNode name body) =
     (case evalField dot name of
        None \<Rightarrow> Inl (ErrorString (''template: can not evaluate field '' @ name))
      | Some v \<Rightarrow> (if v \<noteq> [] then walkList dot body else Inr []))"
| "walkList dot [] = Inr []"
| "walkList dot (n # ns) =
     (case walk dot n of
        Inl err \<Rightarrow> Inl err
      | Inr out \<Rightarrow>
          (case walkList dot ns of
             Inl err \<Rightarrow> Inl err
           | Inr rest \<Rightarrow> Inr (out @ rest)))"

definition template_Execute :: "Node list \<Rightarrow> redirectForm \<Rightarrow> error + string" where
  "template_Execute t data = walkList data t"

text \<open>
  Modelled from the spec: the constant \<open>redirectFormTemplate\<close> is declared in a file
  of package idp that is not among the sources; the handlers below take it as a
  parameter. The spec describes a static HTML document with a form of method post
  whose action is the form action, a hidden input \<open>SAMLResponse\<close> carrying the payload,
  a hidden input \<open>RelayState\<close> only when the relay state is not empty, an inline script
  that submits the form on load, and a visible submit control as fallback; every
  dynamic value is HTML-escaped. The handler parses the constant with package
  \<open>text/template\<close>, where a value is escaped by passing it to \<open>html\<close>, so the three
  values are written \<open>{{html .Field}}\<close>.
\<close>

definition redirectFormTemplate_spec :: string where
  "redirectFormTemplate_spec =
     ''<!DOCTYPE html>\<newline><html>\<newline>'' @
     ''<body onload=\"document.forms[0].submit()\">\<newline>'' @
     ''<form method=\"post\" action=\"{{html .FormAction}}\">\<newline>'' @
     ''<input type=\"hidden\" name=\"SAMLResponse\" value=\"{{html .SAMLResponse}}\" />\<newline>'' @
     ''{{if .RelayState}}<input type=\"hidden\" name=\"RelayState\" value=\"{{html .RelayState}}\" />{{end}}\<newline>'' @
     ''<noscript><input type=\"submit\" value=\"Continue\" /></noscript>\<newline>'' @
     ''</form>\<newline></body>\<newline></html>''"

section \<open>The collaborators of the handlers\<close>

text \<open>
  Modelled from the spec: the declarations of \<open>saml.Assertion\<close> and
  \<open>saml.IdpAuthnRequest\<close> are not among the sources. The spec describes the
  assertion as carrying a subject with subject-confirmation data that holds the
  recipient URL, and the exchange context as binding the identity provider, the HTTP
  request, the parsed AuthnRequest and, after processing, the assertion and the
  response. The handler reads the recipient through the path
  \<open>Assertion.Subject.SubjectConfirmation.SubjectConfirmationData.Recipient\<close>. The
  assertion and the response are held by pointer: \<open>None\<close> until a collaborator has
  stored them. The types of the session, of the AuthnRequest and of the response are
  parameters.
\<close>

record SubjectConfirmationData =
  Recipient :: string

record SubjectConfirmation =
  SubjectConfirmationData :: SubjectConfirmationData

record Subject =
  SubjectConfirmation :: SubjectConfirmation

record Assertion =
  Subject :: Subject

record ('idp, 'req, 'resp) IdpAuthnRequest =
  IDP :: "'idp option"
  HTTPRequest :: Request
  Request :: 'req
  Assertion :: "Assertion option"
  Response :: "'resp option"

text \<open>
  What the handlers use of package idp, of package saml and of \<open>encoding/xml\<close> is
  defined outside the source file and is a parameter of the model:
  \<^item> \<open>Metadata\<close>, the method of \<open>*saml.IdentityProvider\<close>, applied to the pointer the
    middleware holds;
  \<^item> \<open>xml.MarshalIndent\<close> at the metadata type and at the response type, with its
    prefix and indent arguments;
  \<^item> \<open>writeErr\<close>, the helper of package idp that writes the error response;
  \<^item> \<open>redirectFormTemplate\<close>, the constant of package idp that holds the text of the
    form template;
  \<^item> \<open>xml.Unmarshal\<close> at the AuthnRequest type;
  \<^item> the methods \<open>MakeAssertion\<close>, \<open>MarshalAssertion\<close> and \<open>MakeResponse\<close> of
    \<open>*saml.IdpAuthnRequest\<close>, which update the context they are called on and return
    an error or \<open>nil\<close>.
\<close>

record ('idp, 'md, 'sess, 'req, 'resp) collaborators =
  Metadata :: "'idp option \<Rightarrow> error + 'md"
  xml_MarshalIndent_Metadata :: "'md \<Rightarrow> string \<Rightarrow> string \<Rightarrow> error + string"
  writeErr :: "ResponseWriter \<Rightarrow> error \<Rightarrow> ResponseWriter"
  redirectFormTemplate :: string
  xml_Unmarshal :: "string \<Rightarrow> error + 'req"
  MakeAssertion :: "('idp, 'req, 'resp) IdpAuthnRequest \<Rightarrow> 'sess
                      \<Rightarrow> ('idp, 'req, 'resp) IdpAuthnRequest \<times> error option"
  MarshalAssertion :: "('idp, 'req, 'resp) IdpAuthnRequest
                      \<Rightarrow> ('idp, 'req, 'resp) IdpAuthnRequest \<times> error option"
  MakeResponse :: "('idp, 'req, 'resp) IdpAuthnRequest
                      \<Rightarrow> ('idp, 'req, 'resp) IdpAuthnRequest \<times> error option"
  xml_MarshalIndent_Response :: "'resp option \<Rightarrow> string \<Rightarrow> string \<Rightarrow> error + string"

text \<open>
  The authentication hook receives the response writer and the request; it returns
  the writer as it left it, and a session or an error.
\<close>

type_synonym 'sess Authenticator =
  "ResponseWriter \<Rightarrow> Request \<Rightarrow> ResponseWriter \<times> (error + 'sess)"

section \<open>ServeMetadata\<close>

definition ServeMetadata ::
  "('idp, 'md, 'sess, 'req, 'resp) collaborators \<Rightarrow> 'idp Middleware
     \<Rightarrow> ResponseWriter \<Rightarrow> Request \<Rightarrow> ResponseWriter \<times> log_entry list" where
  "ServeMetadata c m w r =
     (case Metadata c (idp m) of
        Inl err \<Rightarrow> (writeErr c w err, [(''Failed to generate metadata: %v'', err)])
      | Inr metadata \<Rightarrow>
          (case xml_MarshalIndent_Metadata c metadata '''' [CHR 0x09] of
             Inl err \<Rightarrow> (writeErr c w err, [(''Failed to build metadata: %v'', err)])
           | Inr out \<Rightarrow>
               (Write
                  (Write (Header_Set w ''Content-Type'' ''application/xml; charset=utf8'')
                     ''<?xml version=\"1.0\" encoding=\"UTF-8\"?>\<newline>'')
                  out,
                [])))"

section \<open>ServeSSO\<close>

text \<open>
  The second half of the handler (from the construction of the exchange context to the
  final write): it runs once the request has been decoded into \<open>authnRequest\<close>.
  Reading the recipient through a \<open>nil\<close> assertion is a run-time panic.
\<close>

definition ServeSSO_respond ::
  "('idp, 'md, 'sess, 'req, 'resp) collaborators \<Rightarrow> 'idp Middleware
     \<Rightarrow> ResponseWriter \<Rightarrow> Request \<Rightarrow> 'sess \<Rightarrow> string \<Rightarrow> 'req
     \<Rightarrow> panic + ResponseWriter \<times> log_entry list" where
  "ServeSSO_respond c m w r sess relayState authnRequest =
     (let idpAuthnRequest =
            \<lparr>IDP = idp m, HTTPRequest = r, Request = authnRequest,
             Assertion = None, Response = None\<rparr>
      in case MakeAssertion c idpAuthnRequest sess of
        (q1, Some err) \<Rightarrow> Inr (writeErr c w err, [(''Failed to make assertion: %v'', err)])
      | (q1, None) \<Rightarrow>
      (case MarshalAssertion c q1 of
        (q2, Some err) \<Rightarrow> Inr (writeErr c w err, [(''Failed to marshal assertion: %v'', err)])
      | (q2, None) \<Rightarrow>
      (case MakeResponse c q2 of
        (q3, Some err) \<Rightarrow> Inr (writeErr c w err, [(''Failed to build response: %v'', err)])
      | (q3, None) \<Rightarrow>
      (case xml_MarshalIndent_Response c (Response q3) '''' [CHR 0x09] of
        Inl err \<Rightarrow> Inr (writeErr c w err, [(''Failed to format response: %v'', err)])
      | Inr buf \<Rightarrow>
      (case Assertion q3 of
        None \<Rightarrow> Inl (Panic ''invalid memory address or nil pointer dereference'')
      | Some assertion \<Rightarrow>
      (let form =
            \<lparr>FormAction =
               Recipient (SubjectConfirmationData (SubjectConfirmation (Subject assertion))),
             RelayState = relayState,
             SAMLResponse = EncodeToString buf\<rparr>
       in case template_Parse (redirectFormTemplate c) of
        Inl err \<Rightarrow> Inr (writeErr c w err, [(''Failed to create form: %v'', err)])
      | Inr formTpl \<Rightarrow>
      (case template_Execute formTpl form of
        Inl err \<Rightarrow> Inr (writeErr c w err, [(''Failed to build form: %v'', err)])
      | Inr formBuf \<Rightarrow>
          Inr (Write (Header_Set w ''Content-Type'' ''text/html'') formBuf, []))))))))"

definition ServeSSO ::
  "('idp, 'md, 'sess, 'req, 'resp) collaborators \<Rightarrow> 'idp Middleware \<Rightarrow> 'sess Authenticator
     \<Rightarrow> ResponseWriter \<Rightarrow> Request \<Rightarrow> panic + ResponseWriter \<times> log_entry list" where
  "ServeSSO c m authFn w0 r =
     (case authFn w0 r of
        (w, Inl err) \<Rightarrow> Inr (w, [(''authFn: %v'', err)])
      | (w, Inr sess) \<Rightarrow>
      (let values = URL_Query r;
           relayState = Values_Get values ''RelayState'';
           samlRequest = Values_Get values ''SAMLRequest''
       in case DecodeString samlRequest of
        Inl err \<Rightarrow> Inr (writeErr c w err, [(''Failed to decode SAMLRequest: %v'', err)])
      | Inr data \<Rightarrow>
      (case flate_ReadAll data of
        (buf, Some err) \<Rightarrow> Inr (writeErr c w err, [(''Failed to read SAMLRequest: %v'', err)])
      | (buf, None) \<Rightarrow>
      (case xml_Unmarshal c buf of
        Inl err \<Rightarrow> Inr (writeErr c w err, [(''Failed to unmarshal SAMLRequest: %v'', err)])
      | Inr authnRequest \<Rightarrow> ServeSSO_respond c m w r sess relayState authnRequest))))"


section \<open>An example deployment\<close>

text \<open>
  Concrete collaborators on which the theorems below are exercised. The identity
  provider, the session, the metadata, the AuthnRequest and the response are strings.
  The example XML decoder accepts the documents that start with \<open><\<close>; \<open>writeErr\<close>
  answers with status 500 and a fixed body; the form template is the one modelled from
  the spec.
\<close>

definition example_xml_Unmarshal :: "string \<Rightarrow> error + string" where
  "example_xml_Unmarshal buf =
     (case buf of
        [] \<Rightarrow> Inl (ErrorString ''EOF'')
      | h # _ \<Rightarrow> (if h = CHR ''<'' then Inr buf else Inl (ErrorString ''EOF'')))"

definition example_writeErr :: "ResponseWriter \<Rightarrow> error \<Rightarrow> ResponseWriter" where
  "example_writeErr w err = w\<lparr>Code := Some 500, Body := Body w @ ''Internal Server Error''\<rparr>"

definition example_assertion :: Assertion where
  "example_assertion =
     \<lparr>Subject = \<lparr>SubjectConfirmation = \<lparr>SubjectConfirmationData =
        \<lparr>Recipient = ''https://sp.example/acs''\<rparr>\<rparr>\<rparr>\<rparr>"

definition example_collaborators :: "(string, string, string, string, string) collaborators" where
  "example_collaborators =
     \<lparr>Metadata = (\<lambda>p. case p of
                        None \<Rightarrow> Inl (ErrorString ''no identity provider'')
                      | Some entity \<Rightarrow>
                          (if entity = [] then Inl (ErrorString ''no entity ID'')
                           else Inr entity)),
      xml_MarshalIndent_Metadata =
        (\<lambda>md prefix indent. Inr (''<EntityDescriptor entityID=\"'' @ md @ ''\"/>'')),
      writeErr = example_writeErr,
      redirectFormTemplate = redirectFormTemplate_spec,
      xml_Unmarshal = example_xml_Unmarshal,
      MakeAssertion = (\<lambda>q sess.
         if sess = [] then (q, Some (ErrorString ''no session''))
         else (q\<lparr>Assertion := Some example_assertion\<rparr>, None)),
      MarshalAssertion = (\<lambda>q. (q, None)),
      MakeResponse = (\<lambda>q. (q\<lparr>Response := Some ''<Response/>''\<rparr>, None)),
      xml_MarshalIndent_Response =
        (\<lambda>resp prefix indent. case resp of None \<Rightarrow> Inr [] | Some x \<Rightarrow> Inr x)\<rparr>"

definition example_middleware :: "string Middleware" where
  "example_middleware = \<lparr>idp = Some ''https://idp.example/metadata''\<rparr>"

definition example_writer :: ResponseWriter where
  "example_writer = \<lparr>Header = Map.empty, Code = None, Body = []\<rparr>"

text \<open>
  The example hook accepts a request that carries a \<open>user\<close> parameter; otherwise it
  redirects to a login page itself and reports an error.
\<close>

definition example_authFn :: "string Authenticator" where
  "example_authFn w r =
     (case Values_Get (URL_Query r) ''user'' of
        [] \<Rightarrow> (Header_Set (w\<lparr>Code := Some 302\<rparr>) ''Location'' ''/login'',
               Inl (ErrorString ''not logged in''))
      | user \<Rightarrow> (w, Inr user))"

definition example_request :: "string \<Rightarrow> string \<Rightarrow> Request" where
  "example_request samlRequest relayState =
     \<lparr>URL_Query = [''user'' \<mapsto> [''alice''], ''SAMLRequest'' \<mapsto> [samlRequest],
                   ''RelayState'' \<mapsto> [relayState]]\<rparr>"

section \<open>Properties of the base64 model\<close>

lemma index_of_nth: "distinct xs \<Longrightarrow> n < length xs \<Longrightarrow> index_of (xs ! n) xs = Some n"
proof (induction xs arbitrary: n)
  case Nil
  then show ?case by simp
next
  case (Cons x xs)
  show ?case
  proof (cases n)
    case 0
    then show ?thesis by simp
  next
    case (Suc k)
    with Cons.prems have "k < length xs" and "distinct xs" and "xs ! k \<noteq> x"
      by auto
    with Cons.IH[of k] Suc show ?thesis by simp
  qed
qed

lemma distinct_encodeStd: "distinct encodeStd"
  unfolding encodeStd_def by simp

lemma length_encodeStd: "length encodeStd = 64"
  unfolding encodeStd_def by simp

lemma decodeMap_encode6: "decodeMap (encode6 n) = n mod 64"
  unfolding decodeMap_def encode6_def
  by (simp add: index_of_nth distinct_encodeStd length_encodeStd)

lemma encode6_in_alphabet: "encode6 n \<in> set encodeStd"
  unfolding encode6_def by (simp add: length_encodeStd)

lemma padChar_notin: "padChar \<notin> set encodeStd"
  unfolding padChar_def encodeStd_def by simp

lemma newline_notin: "CHR 0x0A \<notin> set encodeStd" "CHR 0x0D \<notin> set encodeStd"
  unfolding encodeStd_def by simp_all

lemma encode6_not_special:
  "encode6 n \<noteq> padChar" "encode6 n \<noteq> CHR 0x0A" "encode6 n \<noteq> CHR 0x0D"
  using encode6_in_alphabet[of n] padChar_notin newline_notin by metis+

lemma EncodeToString_no_newline:
  "c \<in> set (EncodeToString bs) \<Longrightarrow> c \<noteq> CHR 0x0A \<and> c \<noteq> CHR 0x0D"
  by (induction bs arbitrary: c rule: EncodeToString.induct)
     (auto simp: Let_def encode6_not_special padChar_def)

lemma stripNewlines_EncodeToString: "stripNewlines (EncodeToString bs) = EncodeToString bs"
  unfolding stripNewlines_def using EncodeToString_no_newline by (simp add: filter_id_conv)

lemma of_char_lt: "(of_char c :: nat) < 256"
  by (cases c) simp

lemma index_of_notin: "c \<notin> set xs \<Longrightarrow> index_of c xs = None"
  by (induction xs) auto

lemma decodeMap_padChar: "decodeMap padChar = 255"
  unfolding decodeMap_def by (simp add: index_of_notin padChar_notin)


lemma sextets_recompose:
  fixes v :: nat
  assumes "v < 16777216"
  shows "(v div 262144 mod 64) * 262144 + (v div 4096 mod 64) * 4096
           + (v div 64 mod 64) * 64 + v mod 64 = v"
proof -
  have e2: "v div 4096 = v div 64 div 64" 
    using div_mult2_eq[of v 64 64] by simp
  have e3: "v div 262144 = v div 64 div 64 div 64"
    using div_mult2_eq[of v 64 4096] div_mult2_eq[of "v div 64" 64 64] by simp
  have lt: "v div 64 div 64 div 64 < 64" using assms e3 by (simp add: less_mult_imp_div_less)
  define v1 where "v1 = v div 64"
  define v2 where "v2 = v1 div 64"
  define v3 where "v3 = v2 div 64"
  have a: "v = v1 * 64 + v mod 64" unfolding v1_def by simp
  have b: "v1 = v2 * 64 + v1 mod 64" unfolding v2_def by simp
  have c: "v2 = v3 * 64 + v2 mod 64" unfolding v3_def by simp
  have d: "v3 mod 64 = v3" using lt unfolding v3_def v2_def v1_def by simp
  have "v3 * 262144 + (v2 mod 64) * 4096 + (v1 mod 64) * 64 + v mod 64 = v"
    using a b c by linarith
  then show ?thesis unfolding e2 e3 using d unfolding v3_def v2_def v1_def by simp
qed

lemma bytes_split3a:
  fixes a b c :: nat
  assumes "b < 256" "c < 256"
  shows "(a * 65536 + b * 256 + c) div 65536 = a"
proof -
  have small: "b * 256 + c < 65536" using assms by linarith
  have "a * 65536 + b * 256 + c = (b * 256 + c) + a * 65536" by simp
  then have "(a * 65536 + b * 256 + c) div 65536 = a + (b * 256 + c) div 65536"
    by (simp only: div_mult_self1)
  with small show ?thesis by simp
qed
lemma bytes_split3b:
  fixes a b c :: nat
  assumes "b < 256" "c < 256"
  shows "(a * 65536 + b * 256 + c) div 256 mod 256 = b"
proof -
  have "a * 65536 + b * 256 + c = c + (a * 256 + b) * 256" by simp
  then have "(a * 65536 + b * 256 + c) div 256 = (a * 256 + b) + c div 256"
    by (simp only: div_mult_self1)
  with assms have "(a * 65536 + b * 256 + c) div 256 = b + a * 256" by simp
  then show ?thesis using assms by (simp only: mod_mult_self1 mod_less)
qed
lemma bytes_split3c:
  fixes a b c :: nat
  assumes "c < 256"
  shows "(a * 65536 + b * 256 + c) mod 256 = c"
proof -
  have "a * 65536 + b * 256 + c = c + (a * 256 + b) * 256" by simp
  then show ?thesis using assms by (simp only: mod_mult_self1 mod_less)
qed

lemma sextet_ne_255: "n mod 64 \<noteq> (255::nat)"
  using mod_less_divisor[of 64 n] by linarith

lemma decodeQuanta_quantum3:
  "decodeQuanta (EncodeToString (b0 # b1 # b2 # src)) =
     (case decodeQuanta (EncodeToString src) of
        Inl err \<Rightarrow> Inl err
      | Inr bs \<Rightarrow> Inr (b0 # b1 # b2 # bs))"
proof -
  define v :: nat where "v = of_char b0 * 65536 + of_char b1 * 256 + of_char b2"
  have lt: "v < 16777216"
    unfolding v_def using of_char_lt[of b0] of_char_lt[of b1] of_char_lt[of b2] by linarith
  have r: "(v div 262144 mod 64) * 262144 + (v div 4096 mod 64) * 4096
             + (v div 64 mod 64) * 64 + v mod 64 = v"
    using sextets_recompose[OF lt] .
  have b: "byte (v div 65536) = b0" "byte (v div 256) = b1" "byte v = b2"
    unfolding v_def byte_def
    using bytes_split3a[of "of_char b1" "of_char b2" "of_char b0"]
          bytes_split3b[of "of_char b1" "of_char b2" "of_char b0"]
          bytes_split3c[of "of_char b2" "of_char b0" "of_char b1"]
          of_char_lt[of b0] of_char_lt[of b1] of_char_lt[of b2]
    by simp_all
  show ?thesis
    by (simp add: Let_def decodeMap_encode6 sextet_ne_255 r b flip: v_def split: sum.splits)
qed


lemma low_sextets_zero:
  fixes a b :: nat
  shows "(a * 65536 + b * 256) mod 64 = 0"
    and "(a * 65536) mod 64 = 0"
    and "(a * 65536) div 64 mod 64 = 0"
proof -
  have "a * 65536 + b * 256 = (a * 1024 + b * 4) * 64" by simp
  then show "(a * 65536 + b * 256) mod 64 = 0" by (simp only: mod_mult_self2_is_0)
  have e: "a * 65536 = (a * 1024) * 64" by simp
  then show "(a * 65536) mod 64 = 0" by (simp only: mod_mult_self2_is_0)
  have "(a * 65536) div 64 = (a * 16) * 64" by simp
  then show "(a * 65536) div 64 mod 64 = 0" by (simp only: mod_mult_self2_is_0)
qed

lemma decodeQuanta_quantum1: "decodeQuanta (EncodeToString [b0]) = Inr [b0]"
proof -
  define v :: nat where "v = of_char b0 * 65536"
  have lt: "v < 16777216" unfolding v_def using of_char_lt[of b0] by linarith
  have "(v div 262144 mod 64) * 262144 + (v div 4096 mod 64) * 4096
             + (v div 64 mod 64) * 64 + v mod 64 = v"
    using sextets_recompose[OF lt] .
  then have r: "(v div 262144 mod 64) * 262144 + (v div 4096 mod 64) * 4096 = v"
    unfolding v_def by (simp only: low_sextets_zero mult_zero_left add_0_right)
  have b: "byte (v div 65536) = b0"
    unfolding v_def byte_def using bytes_split3a[of 0 0 "of_char b0"] of_char_lt[of b0] by simp
  show ?thesis
    by (simp add: Let_def decodeMap_encode6 decodeMap_padChar sextet_ne_255 r b flip: v_def)
qed

lemma decodeQuanta_quantum2: "decodeQuanta (EncodeToString [b0, b1]) = Inr [b0, b1]"
proof -
  define v :: nat where "v = of_char b0 * 65536 + of_char b1 * 256"
  have lt: "v < 16777216"
    unfolding v_def using of_char_lt[of b0] of_char_lt[of b1] by linarith
  have "(v div 262144 mod 64) * 262144 + (v div 4096 mod 64) * 4096
             + (v div 64 mod 64) * 64 + v mod 64 = v"
    using sextets_recompose[OF lt] .
  then have r: "(v div 262144 mod 64) * 262144 + (v div 4096 mod 64) * 4096
             + (v div 64 mod 64) * 64 = v"
    unfolding v_def by (simp only: low_sextets_zero mult_zero_left add_0_right)
  have b: "byte (v div 65536) = b0" "byte (v div 256) = b1"
    unfolding v_def byte_def
    using bytes_split3a[of "of_char b1" 0 "of_char b0"]
          bytes_split3b[of "of_char b1" 0 "of_char b0"]
          of_char_lt[of b0] of_char_lt[of b1]
    by simp_all
  show ?thesis
    by (simp add: Let_def decodeMap_encode6 decodeMap_padChar sextet_ne_255 r b flip: v_def)
qed

lemma decodeQuanta_EncodeToString: "decodeQuanta (EncodeToString bs) = Inr bs"
proof (induction bs rule: EncodeToString.induct)
  case 1
  show ?case by simp
next
  case (2 b0)
  show ?case by (rule decodeQuanta_quantum1)
next
  case (3 b0 b1)
  show ?case by (rule decodeQuanta_quantum2)
next
  case (4 b0 b1 b2 src)
  show ?case by (simp only: decodeQuanta_quantum3 4 sum.case)
qed

lemma DecodeString_EncodeToString: "DecodeString (EncodeToString bs) = Inr bs"
  unfolding DecodeString_def
  by (simp only: stripNewlines_EncodeToString decodeQuanta_EncodeToString)

section \<open>Properties of the handlers\<close>

text \<open>
  Claim C9. \<open>NewMiddleware\<close> panics when it is given a \<open>nil\<close> identity provider. For
  every other identity provider it returns a middleware whose \<open>idp\<close> field is that
  provider, so a middleware that \<open>NewMiddleware\<close> returned never holds \<open>nil\<close>.
\<close>

theorem NewMiddleware_holds_idp:
  "NewMiddleware (None :: 'idp option) = Inl (Panic ''IdP cannot be a nil value.'')
   \<and> (\<forall>p :: 'idp. NewMiddleware (Some p) = Inr \<lparr>idp = Some p\<rparr>)
   \<and> (\<forall>(q :: 'idp option) m. NewMiddleware q = Inr m \<longrightarrow> idp m = q \<and> idp m \<noteq> None)"
  by (auto simp: NewMiddleware_def split: if_splits)

text \<open>The example middleware is what \<open>NewMiddleware\<close> builds from its provider.\<close>

theorem NewMiddleware_holds_idp_witness:
  "NewMiddleware (Some ''https://idp.example/metadata'') = Inr example_middleware
   \<and> idp example_middleware = Some ''https://idp.example/metadata''
   \<and> idp example_middleware \<noteq> None"
proof -
  have built: "NewMiddleware (Some ''https://idp.example/metadata'') = Inr example_middleware"
    by (simp add: NewMiddleware_def example_middleware_def)
  from NewMiddleware_holds_idp built
  have "idp example_middleware = Some ''https://idp.example/metadata''
        \<and> idp example_middleware \<noteq> None"
    by blast
  with built show ?thesis by simp
qed

text \<open>
  Claim C6. When the collaborator returns metadata and marshalling succeeds,
  \<open>ServeMetadata\<close> sets the header \<open>Content-Type\<close> to
  \<open>application/xml; charset=utf8\<close> and appends to the body the XML declaration, a
  newline, and the output of \<open>xml.MarshalIndent\<close> called with the empty prefix and a
  tab as indent. On a writer with an empty body the body therefore begins with the
  declaration. Nothing is logged.
\<close>

theorem ServeMetadata_success:
  assumes "Metadata c (idp m) = Inr metadata"
    and "xml_MarshalIndent_Metadata c metadata '''' [CHR 0x09] = Inr out"
  shows "ServeMetadata c m w r =
           (w\<lparr>Header := (Header w)(''Content-Type'' \<mapsto> [''application/xml; charset=utf8'']),
              Code := Some (case Code w of None \<Rightarrow> 200 | Some code \<Rightarrow> code),
              Body := Body w @ ''<?xml version=\"1.0\" encoding=\"UTF-8\"?>'' @ [CHR 0x0A] @ out\<rparr>,
            [])"
  using assms
  by (simp add: ServeMetadata_def Write_def Header_Set_def split: option.splits)

text \<open>The metadata endpoint of the example deployment, on a fresh writer.\<close>

theorem ServeMetadata_success_witness:
  "ServeMetadata example_collaborators example_middleware example_writer (example_request [] []) =
     (\<lparr>Header = [''Content-Type'' \<mapsto> [''application/xml; charset=utf8'']],
       Code = Some 200,
       Body = ''<?xml version=\"1.0\" encoding=\"UTF-8\"?>'' @ [CHR 0x0A] @
              ''<EntityDescriptor entityID=\"https://idp.example/metadata\"/>''\<rparr>,
      [])"
proof -
  have md: "Metadata example_collaborators (idp example_middleware)
              = Inr ''https://idp.example/metadata''"
    by (simp add: example_collaborators_def example_middleware_def)
  have out: "xml_MarshalIndent_Metadata example_collaborators ''https://idp.example/metadata''
               '''' [CHR 0x09]
             = Inr ''<EntityDescriptor entityID=\"https://idp.example/metadata\"/>''"
    by (simp add: example_collaborators_def)
  show ?thesis
    using ServeMetadata_success[OF md out, of example_writer "example_request [] []"]
    by (simp add: example_writer_def)
qed

text \<open>
  Claim C8. When the metadata collaborator returns an error, the only thing
  \<open>ServeMetadata\<close> does to the response writer is the call of \<open>writeErr\<close> with that
  error: it sets no header and writes neither the XML declaration nor any XML. The
  success path is not entered: the outcome does not depend on the marshalling function.
\<close>

theorem ServeMetadata_collaborator_error:
  assumes "Metadata c (idp m) = Inl err"
  shows "ServeMetadata c m w r = (writeErr c w err, [(''Failed to generate metadata: %v'', err)])
         \<and> (\<forall>f. ServeMetadata (c\<lparr>xml_MarshalIndent_Metadata := f\<rparr>) m w r = ServeMetadata c m w r)"
  using assms by (simp add: ServeMetadata_def)

text \<open>An identity provider without entity ID makes the example collaborator fail.\<close>

theorem ServeMetadata_collaborator_error_witness:
  "ServeMetadata example_collaborators \<lparr>idp = Some []\<rparr> example_writer (example_request [] []) =
     (\<lparr>Header = Map.empty, Code = Some 500, Body = ''Internal Server Error''\<rparr>,
      [(''Failed to generate metadata: %v'', ErrorString ''no entity ID'')])"
proof -
  have md: "Metadata example_collaborators (idp \<lparr>idp = Some []\<rparr>) = Inl (ErrorString ''no entity ID'')"
    by (simp add: example_collaborators_def)
  show ?thesis
    using ServeMetadata_collaborator_error[OF md, of example_writer "example_request [] []"]
    by (simp add: example_collaborators_def example_writeErr_def example_writer_def)
qed

text \<open>
  Claim C3. When the authentication hook returns an error, the handler returns the
  response writer exactly as the hook left it (it writes no byte and sets neither a
  status nor a header), logs the hook's error, and runs no later step: the outcome is
  the same whatever the collaborators are.
\<close>

theorem ServeSSO_auth_failure:
  assumes "authFn w0 r = (w, Inl err)"
  shows "ServeSSO c m authFn w0 r = Inr (w, [(''authFn: %v'', err)])
         \<and> (\<forall>c'. ServeSSO c' m authFn w0 r = ServeSSO c m authFn w0 r)"
  using assms by (simp add: ServeSSO_def)

text \<open>
  The example hook rejects a request without \<open>user\<close> parameter after redirecting to
  the login page; the handler adds nothing to that response.
\<close>

theorem ServeSSO_auth_failure_witness:
  "ServeSSO example_collaborators example_middleware example_authFn example_writer
     \<lparr>URL_Query = [''SAMLRequest'' \<mapsto> [''AQ8A8P88QXV0aG5SZXF1ZXN0Lz4='']]\<rparr> =
   Inr (\<lparr>Header = [''Location'' \<mapsto> [''/login'']], Code = Some 302, Body = []\<rparr>,
        [(''authFn: %v'', ErrorString ''not logged in'')])"
proof -
  have auth: "example_authFn example_writer
                \<lparr>URL_Query = [''SAMLRequest'' \<mapsto> [''AQ8A8P88QXV0aG5SZXF1ZXN0Lz4='']]\<rparr> =
              (\<lparr>Header = [''Location'' \<mapsto> [''/login'']], Code = Some 302, Body = []\<rparr>,
               Inl (ErrorString ''not logged in''))"
    by (simp add: example_authFn_def Values_Get_def Header_Set_def example_writer_def)
  show ?thesis
    using ServeSSO_auth_failure[where authFn = example_authFn and c = example_collaborators
            and m = example_middleware, OF auth]
    by (rule conjunct1)
qed

section \<open>The reader on the output of the writer\<close>

text \<open>
  The reader reads back what the writer at level \<open>NoCompression\<close> wrote: every stored
  block holds at most 65535 bytes, so its length fits the two length bytes of the header
  and the complement check of \<open>dataBlock\<close> succeeds; the empty final block ends the
  stream.
\<close>

lemma readBits_numeral:
  "readBits (numeral k) r =
     (case readBit r of
        None \<Rightarrow> None
      | Some (b, r1) \<Rightarrow>
          (case readBits (pred_numeral k) r1 of
             None \<Rightarrow> None
           | Some (v, r2) \<Rightarrow> Some ((if b then 1 else 0) + 2 * v, r2)))"
  by (simp add: numeral_eq_Suc)







section \<open>The redirect form template and the example deployment\<close>

text \<open>
  The parser accepts a field alone and a field passed to \<open>html\<close>, in the call form and
  in the pipe form.
\<close>

lemma template_Parse_html_actions:
  "template_Parse ''{{.RelayState}}'' = Inr [ActionNode ''RelayState'' []]"
  "template_Parse ''{{html .RelayState}}'' = Inr [ActionNode ''RelayState'' [''html'']]"
  "template_Parse ''{{.RelayState | html}}'' = Inr [ActionNode ''RelayState'' [''html'']]"
  "template_Parse ''{{ .RelayState|html }}'' = Inr [ActionNode ''RelayState'' [''html'']]"
  by (simp_all add: template_Parse_def parseAction_def fieldName_def)

lemma redirectFormTemplate_spec_parse:
  "template_Parse redirectFormTemplate_spec =
     Inr [TextNode (''<!DOCTYPE html>\<newline><html>\<newline>'' @
                    ''<body onload=\"document.forms[0].submit()\">\<newline>'' @
                    ''<form method=\"post\" action=\"''),
          ActionNode ''FormAction'' [''html''],
          TextNode (''\">\<newline>'' @
                    ''<input type=\"hidden\" name=\"SAMLResponse\" value=\"''),
          ActionNode ''SAMLResponse'' [''html''],
          TextNode ''\" />\<newline>'',
          IfNode ''RelayState''
            [TextNode ''<input type=\"hidden\" name=\"RelayState\" value=\"'',
             ActionNode ''RelayState'' [''html''],
             TextNode ''\" />''],
          TextNode (''\<newline>'' @
                    ''<noscript><input type=\"submit\" value=\"Continue\" /></noscript>\<newline>'' @
                    ''</form>\<newline></body>\<newline></html>'')]"
  by (simp add: template_Parse_def redirectFormTemplate_spec_def parseAction_def fieldName_def)

lemma HTMLEscapeString_no_reserved:
  "CHR ''<'' \<notin> set (HTMLEscapeString s)"
  "CHR ''>'' \<notin> set (HTMLEscapeString s)"
  "CHR 0x22 \<notin> set (HTMLEscapeString s)"
  "CHR 0x27 \<notin> set (HTMLEscapeString s)"
  by (auto simp: HTMLEscapeString_def htmlEscapeChar_def split: if_splits)

lemma HTMLEscapeString_example: "HTMLEscapeString ''a<b'' = ''a&lt;b''"
  by (simp add: HTMLEscapeString_def htmlEscapeChar_def)


lemma example_stream_encoded:
  "EncodeToString ([CHR 0x01, CHR 0x0F, CHR 0x00, CHR 0xF0, CHR 0xFF] @ ''<AuthnRequest/>'') =
     ''AQ8A8P88QXV0aG5SZXF1ZXN0Lz4=''"
  by (simp add: encode6_def encodeStd_def padChar_def)

lemma example_stream_decoded:
  "DecodeString ''AQ8A8P88QXV0aG5SZXF1ZXN0Lz4='' =
     Inr ([CHR 0x01, CHR 0x0F, CHR 0x00, CHR 0xF0, CHR 0xFF] @ ''<AuthnRequest/>'')"
  using DecodeString_EncodeToString
          [of "[CHR 0x01, CHR 0x0F, CHR 0x00, CHR 0xF0, CHR 0xFF] @ ''<AuthnRequest/>''"]
  by (simp only: example_stream_encoded)

lemma example_stream_inflated:
  "flate_ReadAll ([CHR 0x01, CHR 0x0F, CHR 0x00, CHR 0xF0, CHR 0xFF] @ ''<AuthnRequest/>'') =
     (''<AuthnRequest/>'', None)"
  by (simp add: flate_ReadAll_def decodeBlock_def dataBlock_def readBits_numeral)

lemma example_response_encoded: "EncodeToString ''<Response/>'' = ''PFJlc3BvbnNlLz4=''"
  by (simp add: encode6_def encodeStd_def padChar_def)

lemma example_auth:
  "example_authFn example_writer (example_request s t) = (example_writer, Inr ''alice'')"
  by (simp add: example_authFn_def example_request_def Values_Get_def)

lemma example_query:
  "Values_Get (URL_Query (example_request s t)) ''SAMLRequest'' = s"
  "Values_Get (URL_Query (example_request s t)) ''RelayState'' = t"
  by (simp_all add: example_request_def Values_Get_def)


section \<open>Properties of the SSO exchange\<close>

text \<open>
  Claim C1. The document rendered from the redirect form template for a form value
  holds the three values of the form, the form action, the \<open>SAMLResponse\<close> payload and
  the relay state, each passed through \<open>html\<close>, that is, HTML-escaped by
  \<open>HTMLEscapeString\<close>; the \<open>RelayState\<close> input is left out when the relay state is empty.
  Escaping replaces every \<open><\<close> of a value by \<open>&lt;\<close>, and an escaped value holds no
  \<open><\<close>, no \<open>>\<close> and no double quote, so it cannot end the attribute it is written into.
  The template is \<open>redirectFormTemplate_spec\<close>; package text/template escapes what the
  template passes to \<open>html\<close> and nothing else.
\<close>

theorem redirect_form_values_escaped:
  "(case template_Parse redirectFormTemplate_spec of
      Inl err \<Rightarrow> Inl err
    | Inr formTpl \<Rightarrow> template_Execute formTpl form) =
   Inr (''<!DOCTYPE html>\<newline><html>\<newline>'' @
        ''<body onload=\"document.forms[0].submit()\">\<newline>'' @
        ''<form method=\"post\" action=\"'' @ HTMLEscapeString (FormAction form) @
        ''\">\<newline>'' @
        ''<input type=\"hidden\" name=\"SAMLResponse\" value=\"'' @
        HTMLEscapeString (SAMLResponse form) @ ''\" />\<newline>'' @
        (if RelayState form = [] then []
         else ''<input type=\"hidden\" name=\"RelayState\" value=\"'' @
              HTMLEscapeString (RelayState form) @ ''\" />'') @
        ''\<newline>'' @
        ''<noscript><input type=\"submit\" value=\"Continue\" /></noscript>\<newline>'' @
        ''</form>\<newline></body>\<newline></html>'')
   \<and> HTMLEscapeString (pre @ ''<'' @ post) = HTMLEscapeString pre @ ''&lt;'' @ HTMLEscapeString post
   \<and> CHR ''<'' \<notin> set (HTMLEscapeString s)
   \<and> CHR ''>'' \<notin> set (HTMLEscapeString s)
   \<and> CHR 0x22 \<notin> set (HTMLEscapeString s)"
  by (simp add: redirectFormTemplate_spec_parse template_Execute_def evalField_def
        HTMLEscapeString_no_reserved)
     (simp add: HTMLEscapeString_def htmlEscapeChar_def)


text \<open>A form whose relay state is \<open>a<b\<close>: the hidden input holds \<open>a&lt;b\<close>.\<close>

theorem redirect_form_values_escaped_witness:
  "(case template_Parse redirectFormTemplate_spec of
      Inl err \<Rightarrow> Inl err
    | Inr formTpl \<Rightarrow>
        template_Execute formTpl
          \<lparr>FormAction = ''https://sp.example/acs'', RelayState = ''a<b'',
           SAMLResponse = ''PFJlc3BvbnNlLz4=''\<rparr>) =
   Inr (''<!DOCTYPE html>\<newline><html>\<newline>'' @
        ''<body onload=\"document.forms[0].submit()\">\<newline>'' @
        ''<form method=\"post\" action=\"https://sp.example/acs\">\<newline>'' @
        ''<input type=\"hidden\" name=\"SAMLResponse\" value=\"PFJlc3BvbnNlLz4=\" />\<newline>'' @
        ''<input type=\"hidden\" name=\"RelayState\" value=\"a&lt;b\" />\<newline>'' @
        ''<noscript><input type=\"submit\" value=\"Continue\" /></noscript>\<newline>'' @
        ''</form>\<newline></body>\<newline></html>'')"
  using redirect_form_values_escaped
          [of "\<lparr>FormAction = ''https://sp.example/acs'', RelayState = ''a<b'',
               SAMLResponse = ''PFJlc3BvbnNlLz4=''\<rparr>" "''a''" "''b''" "''a<b''"]
  by (simp add: HTMLEscapeString_def htmlEscapeChar_def)

text \<open>
  Claim C7. In an exchange in which every step up to the form succeeds, the handler
  builds the \<open>redirectForm\<close> value with the field \<open>RelayState\<close> equal to what
  \<open>Values.Get\<close> returned for the query parameter \<open>RelayState\<close>, byte for byte, and hands
  that value to the template: between the query and the form the relay state is neither
  parsed nor validated nor transformed. This holds whatever the form template is; how
  the value appears in the document is the template's matter.
\<close>

theorem ServeSSO_relay_state_verbatim:
  assumes auth: "authFn w0 r = (w, Inr sess)"
    and decode: "DecodeString (Values_Get (URL_Query r) ''SAMLRequest'') = Inr data"
    and inflate: "flate_ReadAll data = (buf, None)"
    and unmarshal: "xml_Unmarshal c buf = Inr authnRequest"
    and assert: "MakeAssertion c
             \<lparr>IDP = idp m, HTTPRequest = r, Request = authnRequest,
              Assertion = None, Response = None\<rparr> sess = (q1, None)"
    and marshal: "MarshalAssertion c q1 = (q2, None)"
    and respond: "MakeResponse c q2 = (q3, None)"
    and format: "xml_MarshalIndent_Response c (Response q3) '''' [CHR 0x09] = Inr out"
    and assertion: "Assertion q3 = Some assertion"
  shows "ServeSSO c m authFn w0 r =
           (case template_Parse (redirectFormTemplate c) of
              Inl err \<Rightarrow> Inr (writeErr c w err, [(''Failed to create form: %v'', err)])
            | Inr formTpl \<Rightarrow>
                (case template_Execute formTpl
                        \<lparr>FormAction = Recipient (SubjectConfirmationData
                                          (SubjectConfirmation (Subject assertion))),
                         RelayState = Values_Get (URL_Query r) ''RelayState'',
                         SAMLResponse = EncodeToString out\<rparr> of
                   Inl err \<Rightarrow> Inr (writeErr c w err, [(''Failed to build form: %v'', err)])
                 | Inr formBuf \<Rightarrow>
                     Inr (Write (Header_Set w ''Content-Type'' ''text/html'') formBuf, [])))"
  using assms by (simp add: ServeSSO_def ServeSSO_respond_def)

text \<open>
  Two complete exchanges of the example deployment with relay state \<open>state1\<close>: one with
  the template that prints the field alone, so that the document written is the relay
  state, and one with \<open>redirectFormTemplate_spec\<close>.
\<close>

theorem ServeSSO_relay_state_verbatim_witness:
  "ServeSSO (example_collaborators\<lparr>redirectFormTemplate := ''{{.RelayState}}''\<rparr>)
     example_middleware example_authFn example_writer
     (example_request ''AQ8A8P88QXV0aG5SZXF1ZXN0Lz4='' ''state1'') =
   Inr (\<lparr>Header = [''Content-Type'' \<mapsto> [''text/html'']], Code = Some 200,
         Body = ''state1''\<rparr>, [])
   \<and>
   ServeSSO example_collaborators example_middleware example_authFn example_writer
     (example_request ''AQ8A8P88QXV0aG5SZXF1ZXN0Lz4='' ''state1'') =
   Inr (\<lparr>Header = [''Content-Type'' \<mapsto> [''text/html'']],
         Code = Some 200,
         Body = ''<!DOCTYPE html>\<newline><html>\<newline>'' @
                ''<body onload=\"document.forms[0].submit()\">\<newline>'' @
                ''<form method=\"post\" action=\"https://sp.example/acs\">\<newline>'' @
                ''<input type=\"hidden\" name=\"SAMLResponse\" value=\"PFJlc3BvbnNlLz4=\" />\<newline>'' @
                ''<input type=\"hidden\" name=\"RelayState\" value=\"state1\" />\<newline>'' @
                ''<noscript><input type=\"submit\" value=\"Continue\" /></noscript>\<newline>'' @
                ''</form>\<newline></body>\<newline></html>''\<rparr>,
        [])"
proof -
  let ?r = "example_request ''AQ8A8P88QXV0aG5SZXF1ZXN0Lz4='' ''state1''"
  let ?q = "\<lparr>IDP = idp example_middleware, HTTPRequest = ?r, Request = ''<AuthnRequest/>'',
             Assertion = Some example_assertion, Response = None\<rparr>"
  let ?c = "example_collaborators\<lparr>redirectFormTemplate := ''{{.RelayState}}''\<rparr>"
  have decode: "DecodeString (Values_Get (URL_Query ?r) ''SAMLRequest'') =
                  Inr ([CHR 0x01, CHR 0x0F, CHR 0x00, CHR 0xF0, CHR 0xFF] @ ''<AuthnRequest/>'')"
    by (simp only: example_query example_stream_decoded)
  have inflate: "flate_ReadAll
                   ([CHR 0x01, CHR 0x0F, CHR 0x00, CHR 0xF0, CHR 0xFF] @ ''<AuthnRequest/>'') =
                 (''<AuthnRequest/>'', None)"
    by (simp only: example_stream_inflated)
  have unmarshal: "xml_Unmarshal example_collaborators ''<AuthnRequest/>'' = Inr ''<AuthnRequest/>''"
    by (simp add: example_collaborators_def example_xml_Unmarshal_def)
  have assert: "MakeAssertion example_collaborators
                  \<lparr>IDP = idp example_middleware, HTTPRequest = ?r, Request = ''<AuthnRequest/>'',
                   Assertion = None, Response = None\<rparr> ''alice'' = (?q, None)"
    by (simp add: example_collaborators_def)
  have marshal: "MarshalAssertion example_collaborators ?q = (?q, None)"
    by (simp add: example_collaborators_def)
  have respond: "MakeResponse example_collaborators ?q = (?q\<lparr>Response := Some ''<Response/>''\<rparr>, None)"
    by (simp add: example_collaborators_def)
  have format: "xml_MarshalIndent_Response example_collaborators
                  (Response (?q\<lparr>Response := Some ''<Response/>''\<rparr>)) '''' [CHR 0x09] =
                Inr ''<Response/>''"
    by (simp add: example_collaborators_def)
  have assertion: "Assertion (?q\<lparr>Response := Some ''<Response/>''\<rparr>) = Some example_assertion"
    by simp
  have unmarshal': "xml_Unmarshal ?c ''<AuthnRequest/>'' = Inr ''<AuthnRequest/>''"
    using unmarshal by simp
  have assert': "MakeAssertion ?c
                  \<lparr>IDP = idp example_middleware, HTTPRequest = ?r, Request = ''<AuthnRequest/>'',
                   Assertion = None, Response = None\<rparr> ''alice'' = (?q, None)"
    using assert by simp
  have marshal': "MarshalAssertion ?c ?q = (?q, None)"
    using marshal by simp
  have respond': "MakeResponse ?c ?q = (?q\<lparr>Response := Some ''<Response/>''\<rparr>, None)"
    using respond by simp
  have format': "xml_MarshalIndent_Response ?c
                  (Response (?q\<lparr>Response := Some ''<Response/>''\<rparr>)) '''' [CHR 0x09] =
                Inr ''<Response/>''"
    using format by simp
  have template: "redirectFormTemplate example_collaborators = redirectFormTemplate_spec"
    by (simp add: example_collaborators_def)
  have plain: "ServeSSO ?c example_middleware example_authFn example_writer ?r =
                 Inr (\<lparr>Header = [''Content-Type'' \<mapsto> [''text/html'']], Code = Some 200,
                       Body = ''state1''\<rparr>, [])"
    apply (subst ServeSSO_relay_state_verbatim
            [where authFn = example_authFn and c = ?c,
             OF example_auth decode inflate unmarshal' assert' marshal' respond' format'
                assertion])
    apply (simp only: example_query example_response_encoded)
    apply (simp add: template_Parse_html_actions template_Execute_def evalField_def
             Write_def Header_Set_def example_writer_def)
    done
  have form: "ServeSSO example_collaborators example_middleware example_authFn example_writer ?r =
               Inr (\<lparr>Header = [''Content-Type'' \<mapsto> [''text/html'']],
                     Code = Some 200,
                     Body = ''<!DOCTYPE html>\<newline><html>\<newline>'' @
                       ''<body onload=\"document.forms[0].submit()\">\<newline>'' @
                       ''<form method=\"post\" action=\"https://sp.example/acs\">\<newline>'' @
                       ''<input type=\"hidden\" name=\"SAMLResponse\" value=\"PFJlc3BvbnNlLz4=\" />\<newline>'' @
                       ''<input type=\"hidden\" name=\"RelayState\" value=\"state1\" />\<newline>'' @
                       ''<noscript><input type=\"submit\" value=\"Continue\" /></noscript>\<newline>'' @
                       ''</form>\<newline></body>\<newline></html>''\<rparr>,
                    [])"
    apply (subst ServeSSO_relay_state_verbatim
            [where authFn = example_authFn and c = example_collaborators,
             OF example_auth decode inflate unmarshal assert marshal respond format assertion])
    apply (simp only: example_query example_response_encoded template
             redirectFormTemplate_spec_parse)
    apply (simp add: template_Execute_def evalField_def HTMLEscapeString_def htmlEscapeChar_def
             example_assertion_def Write_def Header_Set_def example_writer_def)
    done
  from plain form show ?thesis by (rule conjI)
qed

text \<open>
  Claim C2. After a successful authentication the handler decodes the \<open>SAMLRequest\<close>
  parameter in three steps, in this order: base64 decoding, reading the DEFLATE stream
  to its end, XML unmarshalling. A failure of a step ends the exchange with
  \<open>writeErr\<close> and a log entry that names the step: \<open>Failed to decode SAMLRequest\<close> (the
  spec's DecodeError), \<open>Failed to read SAMLRequest\<close> (InflateError) and
  \<open>Failed to unmarshal SAMLRequest\<close> (XMLParseError). A later step runs only after the
  earlier ones succeeded: the DEFLATE reader is applied to the bytes base64 decoding
  returned and the XML decoder to the bytes the reader delivered, and when base64
  decoding fails or the reader reports an error the outcome is the same whatever the
  XML decoder is. When the three steps succeed the exchange continues with the parsed
  request.
\<close>

theorem ServeSSO_decode_order:
  assumes auth: "authFn w0 r = (w, Inr sess)"
  shows "(\<forall>err. DecodeString (Values_Get (URL_Query r) ''SAMLRequest'') = Inl err \<longrightarrow>
            (\<forall>g. ServeSSO (c\<lparr>xml_Unmarshal := g\<rparr>) m authFn w0 r =
                   Inr (writeErr c w err, [(''Failed to decode SAMLRequest: %v'', err)])))
       \<and> (\<forall>data buf err.
            DecodeString (Values_Get (URL_Query r) ''SAMLRequest'') = Inr data \<longrightarrow>
            flate_ReadAll data = (buf, Some err) \<longrightarrow>
            (\<forall>g. ServeSSO (c\<lparr>xml_Unmarshal := g\<rparr>) m authFn w0 r =
                   Inr (writeErr c w err, [(''Failed to read SAMLRequest: %v'', err)])))
       \<and> (\<forall>data buf err.
            DecodeString (Values_Get (URL_Query r) ''SAMLRequest'') = Inr data \<longrightarrow>
            flate_ReadAll data = (buf, None) \<longrightarrow>
            xml_Unmarshal c buf = Inl err \<longrightarrow>
            ServeSSO c m authFn w0 r =
              Inr (writeErr c w err, [(''Failed to unmarshal SAMLRequest: %v'', err)]))
       \<and> (\<forall>data buf authnRequest.
            DecodeString (Values_Get (URL_Query r) ''SAMLRequest'') = Inr data \<longrightarrow>
            flate_ReadAll data = (buf, None) \<longrightarrow>
            xml_Unmarshal c buf = Inr authnRequest \<longrightarrow>
            ServeSSO c m authFn w0 r =
              ServeSSO_respond c m w r sess (Values_Get (URL_Query r) ''RelayState'')
                authnRequest)"
  using auth by (simp add: ServeSSO_def)

text \<open>
  The example deployment on a parameter that is not base64, on the base64 encoding of a
  block of the reserved type, on a stored block that announces five bytes and holds
  two, on a stored block that holds no XML, and on a stored block that holds an
  AuthnRequest.
\<close>

theorem ServeSSO_decode_order_witness:
  "ServeSSO example_collaborators example_middleware example_authFn example_writer
     (example_request ''!!!'' ''state1'') =
   Inr (example_writeErr example_writer base64_CorruptInputError,
        [(''Failed to decode SAMLRequest: %v'', base64_CorruptInputError)])
   \<and>
   ServeSSO example_collaborators example_middleware example_authFn example_writer
     (example_request ''Bw=='' ''state1'') =
   Inr (example_writeErr example_writer flate_CorruptInputError,
        [(''Failed to read SAMLRequest: %v'', flate_CorruptInputError)])
   \<and>
   ServeSSO example_collaborators example_middleware example_authFn example_writer
     (example_request ''AQUA+v9hYg=='' ''state1'') =
   Inr (example_writeErr example_writer io_ErrUnexpectedEOF,
        [(''Failed to read SAMLRequest: %v'', io_ErrUnexpectedEOF)])
   \<and>
   ServeSSO example_collaborators example_middleware example_authFn example_writer
     (example_request ''AQUA+v9oZWxsbw=='' ''state1'') =
   Inr (example_writeErr example_writer (ErrorString ''EOF''),
        [(''Failed to unmarshal SAMLRequest: %v'', ErrorString ''EOF'')])
   \<and>
   ServeSSO example_collaborators example_middleware example_authFn example_writer
     (example_request ''AQ8A8P88QXV0aG5SZXF1ZXN0Lz4='' ''state1'') =
   ServeSSO_respond example_collaborators example_middleware example_writer
     (example_request ''AQ8A8P88QXV0aG5SZXF1ZXN0Lz4='' ''state1'') ''alice'' ''state1''
     ''<AuthnRequest/>''"
proof -
  note order = ServeSSO_decode_order
                 [where authFn = example_authFn and c = example_collaborators
                    and m = example_middleware]
  have same: "example_collaborators\<lparr>xml_Unmarshal := example_xml_Unmarshal\<rparr> = example_collaborators"
    by (simp add: example_collaborators_def)
  have w: "writeErr example_collaborators = example_writeErr"
    by (simp add: example_collaborators_def)
  have d1: "DecodeString (Values_Get (URL_Query (example_request ''!!!'' ''state1'')) ''SAMLRequest'')
              = Inl base64_CorruptInputError"
    by (simp add: example_query DecodeString_def stripNewlines_def)
  have d2: "DecodeString (Values_Get (URL_Query (example_request ''Bw=='' ''state1'')) ''SAMLRequest'')
              = Inr [CHR 0x07]"
    using DecodeString_EncodeToString[of "[CHR 0x07]"]
    by (simp add: example_query encode6_def encodeStd_def padChar_def)
  have f2: "flate_ReadAll [CHR 0x07] = ([], Some flate_CorruptInputError)"
    by (simp add: flate_ReadAll_def decodeBlock_def readBits_numeral)
  have et: "EncodeToString ([CHR 0x01, CHR 0x05, CHR 0x00, CHR 0xFA, CHR 0xFF] @ ''ab'')
              = ''AQUA+v9hYg==''"
    by (simp add: encode6_def encodeStd_def padChar_def)
  have dt: "DecodeString (Values_Get (URL_Query (example_request ''AQUA+v9hYg=='' ''state1''))
               ''SAMLRequest'')
              = Inr ([CHR 0x01, CHR 0x05, CHR 0x00, CHR 0xFA, CHR 0xFF] @ ''ab'')"
    using DecodeString_EncodeToString
            [of "[CHR 0x01, CHR 0x05, CHR 0x00, CHR 0xFA, CHR 0xFF] @ ''ab''"]
    by (simp only: et example_query)
  have ft: "flate_ReadAll ([CHR 0x01, CHR 0x05, CHR 0x00, CHR 0xFA, CHR 0xFF] @ ''ab'')
              = (''ab'', Some io_ErrUnexpectedEOF)"
    by (simp add: flate_ReadAll_def decodeBlock_def dataBlock_def readBits_numeral)
  have e3: "EncodeToString ([CHR 0x01, CHR 0x05, CHR 0x00, CHR 0xFA, CHR 0xFF] @ ''hello'')
              = ''AQUA+v9oZWxsbw==''"
    by (simp add: encode6_def encodeStd_def padChar_def)
  have d3: "DecodeString (Values_Get (URL_Query (example_request ''AQUA+v9oZWxsbw=='' ''state1''))
               ''SAMLRequest'')
              = Inr ([CHR 0x01, CHR 0x05, CHR 0x00, CHR 0xFA, CHR 0xFF] @ ''hello'')"
    using DecodeString_EncodeToString
            [of "[CHR 0x01, CHR 0x05, CHR 0x00, CHR 0xFA, CHR 0xFF] @ ''hello''"]
    by (simp only: e3 example_query)
  have f3: "flate_ReadAll
              ([CHR 0x01, CHR 0x05, CHR 0x00, CHR 0xFA, CHR 0xFF] @ ''hello'') = (''hello'', None)"
    by (simp add: flate_ReadAll_def decodeBlock_def dataBlock_def readBits_numeral)
  have x3: "xml_Unmarshal example_collaborators ''hello'' = Inl (ErrorString ''EOF'')"
    by (simp add: example_collaborators_def example_xml_Unmarshal_def)
  have d4: "DecodeString (Values_Get (URL_Query
               (example_request ''AQ8A8P88QXV0aG5SZXF1ZXN0Lz4='' ''state1'')) ''SAMLRequest'')
              = Inr ([CHR 0x01, CHR 0x0F, CHR 0x00, CHR 0xF0, CHR 0xFF] @ ''<AuthnRequest/>'')"
    by (simp only: example_query example_stream_decoded)
  note f4 = example_stream_inflated
  have x4: "xml_Unmarshal example_collaborators ''<AuthnRequest/>'' = Inr ''<AuthnRequest/>''"
    by (simp add: example_collaborators_def example_xml_Unmarshal_def)
  from order[OF example_auth[of "''!!!''" "''state1''"]] d1
  have c1: "ServeSSO (example_collaborators\<lparr>xml_Unmarshal := example_xml_Unmarshal\<rparr>)
              example_middleware example_authFn example_writer (example_request ''!!!'' ''state1'') =
            Inr (writeErr example_collaborators example_writer base64_CorruptInputError,
                 [(''Failed to decode SAMLRequest: %v'', base64_CorruptInputError)])"
    by blast
  from order[OF example_auth[of "''Bw==''" "''state1''"]] d2 f2
  have c2: "ServeSSO (example_collaborators\<lparr>xml_Unmarshal := example_xml_Unmarshal\<rparr>)
              example_middleware example_authFn example_writer (example_request ''Bw=='' ''state1'') =
            Inr (writeErr example_collaborators example_writer flate_CorruptInputError,
                 [(''Failed to read SAMLRequest: %v'', flate_CorruptInputError)])"
    by blast
  from order[OF example_auth[of "''AQUA+v9hYg==''" "''state1''"]] dt ft
  have ct: "ServeSSO (example_collaborators\<lparr>xml_Unmarshal := example_xml_Unmarshal\<rparr>)
              example_middleware example_authFn example_writer
              (example_request ''AQUA+v9hYg=='' ''state1'') =
            Inr (writeErr example_collaborators example_writer io_ErrUnexpectedEOF,
                 [(''Failed to read SAMLRequest: %v'', io_ErrUnexpectedEOF)])"
    by blast
  from order[OF example_auth[of "''AQUA+v9oZWxsbw==''" "''state1''"]] d3 f3 x3
  have c3: "ServeSSO example_collaborators example_middleware example_authFn example_writer
              (example_request ''AQUA+v9oZWxsbw=='' ''state1'') =
            Inr (writeErr example_collaborators example_writer (ErrorString ''EOF''),
                 [(''Failed to unmarshal SAMLRequest: %v'', ErrorString ''EOF'')])"
    by blast
  from order[OF example_auth[of "''AQ8A8P88QXV0aG5SZXF1ZXN0Lz4=''" "''state1''"]] d4 f4 x4
  have c4: "ServeSSO example_collaborators example_middleware example_authFn example_writer
              (example_request ''AQ8A8P88QXV0aG5SZXF1ZXN0Lz4='' ''state1'') =
            ServeSSO_respond example_collaborators example_middleware example_writer
              (example_request ''AQ8A8P88QXV0aG5SZXF1ZXN0Lz4='' ''state1'') ''alice''
              (Values_Get (URL_Query (example_request ''AQ8A8P88QXV0aG5SZXF1ZXN0Lz4='' ''state1''))
                 ''RelayState'')
              ''<AuthnRequest/>''"
    by blast
  from c1 c2 ct c3 c4 show ?thesis
    by (simp only: same w example_query)
qed



text \<open>
  Claim C10. When the \<open>SAMLRequest\<close> parameter is absent or empty (and authentication
  succeeded), base64 decoding succeeds with zero bytes; the DEFLATE reader finds no
  block header in them and reports \<open>io.ErrUnexpectedEOF\<close>, so the exchange fails at the
  decompression step: the log entry is \<open>Failed to read SAMLRequest\<close>, not
  \<open>Failed to decode SAMLRequest\<close>.
\<close>

theorem ServeSSO_empty_SAMLRequest:
  assumes auth: "authFn w0 r = (w, Inr sess)"
    and empty: "URL_Query r ''SAMLRequest'' = None
                \<or> URL_Query r ''SAMLRequest'' = Some []
                \<or> (\<exists>rest. URL_Query r ''SAMLRequest'' = Some ([] # rest))"
  shows "DecodeString (Values_Get (URL_Query r) ''SAMLRequest'') = Inr []
         \<and> flate_ReadAll [] = ([], Some io_ErrUnexpectedEOF)
         \<and> ServeSSO c m authFn w0 r =
             Inr (writeErr c w io_ErrUnexpectedEOF,
                  [(''Failed to read SAMLRequest: %v'', io_ErrUnexpectedEOF)])"
proof -
  from empty have "Values_Get (URL_Query r) ''SAMLRequest'' = []"
    by (auto simp: Values_Get_def)
  moreover have "DecodeString [] = Inr []"
    by (simp add: DecodeString_def stripNewlines_def)
  moreover have "flate_ReadAll [] = ([], Some io_ErrUnexpectedEOF)"
    by (simp add: flate_ReadAll_def readBits_numeral)
  ultimately show ?thesis
    using auth by (simp add: ServeSSO_def)
qed

text \<open>A request of the example deployment without \<open>SAMLRequest\<close> parameter.\<close>

theorem ServeSSO_empty_SAMLRequest_witness:
  "DecodeString (Values_Get [''user'' \<mapsto> [''alice'']] ''SAMLRequest'') = Inr []
   \<and> flate_ReadAll [] = ([], Some io_ErrUnexpectedEOF)
   \<and> ServeSSO example_collaborators example_middleware example_authFn example_writer
       \<lparr>URL_Query = [''user'' \<mapsto> [''alice'']]\<rparr> =
     Inr (\<lparr>Header = Map.empty, Code = Some 500, Body = ''Internal Server Error''\<rparr>,
          [(''Failed to read SAMLRequest: %v'', io_ErrUnexpectedEOF)])"
proof -
  have auth: "example_authFn example_writer \<lparr>URL_Query = [''user'' \<mapsto> [''alice'']]\<rparr> =
                (example_writer, Inr ''alice'')"
    by (simp add: example_authFn_def Values_Get_def)
  have empty: "URL_Query \<lparr>URL_Query = [''user'' \<mapsto> [''alice'']]\<rparr> ''SAMLRequest'' = None
                \<or> URL_Query \<lparr>URL_Query = [''user'' \<mapsto> [''alice'']]\<rparr> ''SAMLRequest'' = Some []
                \<or> (\<exists>rest. URL_Query \<lparr>URL_Query = [''user'' \<mapsto> [''alice'']]\<rparr> ''SAMLRequest''
                             = Some ([] # rest))"
    by simp
  show ?thesis
    using ServeSSO_empty_SAMLRequest
            [where authFn = example_authFn and c = example_collaborators
               and m = example_middleware, OF auth empty]
    by (simp add: example_collaborators_def example_writeErr_def example_writer_def)
qed

end
